theory Spec2Isabelle
  imports Complex_Main
begin

unbundle bit_operations_syntax

section \<open>The streaming moment accumulators of rms_norm_kernels.cu\<close>

text \<open>
  The accumulation type \<open>U\<close> of the kernels is embedded as \<open>real\<close>: arithmetic in
  the accumulation type is exact.  A thread's accumulator is the triple of its local
  variables \<open>(mu, sigma2, count)\<close>; a device function that updates them through
  references returns the new triple.
\<close>

type_synonym acc = "real \<times> real \<times> real"

fun cuWelfordOnlineSum :: "real \<Rightarrow> acc \<Rightarrow> acc" where
  "cuWelfordOnlineSum curr0 (mu, sigma2, count) =
     (let count' = count + 1;
          delta = curr0 - mu;
          lmean = mu + delta / count';
          delta2 = curr0 - lmean
      in (lmean, sigma2 + delta * delta2, count'))"

fun cuChanOnlineSum :: "real \<Rightarrow> real \<Rightarrow> real \<Rightarrow> acc \<Rightarrow> acc" where
  "cuChanOnlineSum muB sigma2B countB (mu, sigma2, count) =
     (let delta = muB - mu;
          nA = count;
          nB = countB;
          count' = count + countB;
          nX = count'
      in if nX > 0
         then (let nA' = nA / nX; nB' = nB / nX
               in (nA' * mu + nB' * muB,
                   sigma2 + sigma2B + delta * delta * nA' * nB' * nX,
                   count'))
         else (0, 0, count'))"

definition cuRMSOnlineSum :: "real \<Rightarrow> real \<Rightarrow> real" where
  "cuRMSOnlineSum curr0 sigma2 = sigma2 + curr0 * curr0"

definition cuChanRMSOnlineSum :: "real \<Rightarrow> real \<Rightarrow> real" where
  "cuChanRMSOnlineSum sigma2B sigma2 = sigma2 + sigma2B"

section \<open>Element formats, launch geometry and loops\<close>

text \<open>
  Values of every element type are embedded in the reals.  A template type parameter
  \<open>X\<close> of a kernel is represented by its conversion \<open>static_cast<X>\<close>, a function
  from the reals to the values of \<open>X\<close>: \<open>castT\<close> for the input type \<open>T\<close>,
  \<open>castU\<close> for the accumulation type \<open>U\<close> and \<open>castV\<close> for the weight and output
  type \<open>V\<close>.  An operator applied to two operands of type \<open>V\<close> computes in \<open>V\<close>:
  it is the exact operation followed by the conversion to \<open>V\<close>.
\<close>

record formats =
  castT :: "real \<Rightarrow> real"
  castU :: "real \<Rightarrow> real"
  castV :: "real \<Rightarrow> real"

definition mulV :: "formats \<Rightarrow> real \<Rightarrow> real \<Rightarrow> real" where
  "mulV fm a b = castV fm (a * b)"

definition addV :: "formats \<Rightarrow> real \<Rightarrow> real \<Rightarrow> real" where
  "addV fm a b = castV fm (a + b)"

text \<open>The exact-arithmetic embedding: no conversion changes a value.\<close>

definition exact :: formats where
  "exact = \<lparr>castT = (\<lambda>v. v), castU = (\<lambda>v. v), castV = (\<lambda>v. v)\<rparr>"

text \<open>
  Modelled from the spec: \<open>rsqrt\<close> is the CUDA device library's reciprocal square root,
  which is not part of the source file; the spec gives it as \<open>1/sqrt(ms + epsilon)\<close>.
\<close>

definition rsqrt :: "real \<Rightarrow> real" where
  "rsqrt v = 1 / sqrt v"

text \<open>
  A device array is a function from element indices (offsets from its base pointer) to
  values; a pointer that may be \<open>NULL\<close> is an option.  Index arithmetic is done in
  \<open>nat\<close>: the kernels index with \<open>int\<close>, and every buffer is taken to be small enough
  for its offsets to be representable.
\<close>

type_synonym array = "nat \<Rightarrow> real"

datatype fault = NullPointerWrite

record dim3 =
  dimx :: nat
  dimy :: nat

text \<open>
  The threads of a block (or the blocks of a grid), x fastest.  Statements that store to
  memory are executed for the threads one after the other in this order; between two
  barriers the kernels never let two threads store to one address.
\<close>

definition threads :: "dim3 \<Rightarrow> (nat \<times> nat) list" where
  "threads d = [(tx, ty). ty \<leftarrow> [0..<dimy d], tx \<leftarrow> [0..<dimx d]]"

definition par_store :: "dim3 \<Rightarrow> (nat \<Rightarrow> nat \<Rightarrow> 'm \<Rightarrow> 'm) \<Rightarrow> 'm \<Rightarrow> 'm" where
  "par_store d stmt m = fold (\<lambda>(tx, ty). stmt tx ty) (threads d) m"

text \<open>
  \<open>for (; i + off < n; i += step) body(i)\<close>, returning the final \<open>i\<close> and state.
  Every stride of the kernels is a positive multiple of a block or grid dimension, which
  CUDA requires to be at least 1; the test \<open>0 < step\<close> only makes the recursion total.
\<close>

function strided_for ::
  "nat \<Rightarrow> nat \<Rightarrow> nat \<Rightarrow> nat \<Rightarrow> (nat \<Rightarrow> 's \<Rightarrow> 's) \<Rightarrow> 's \<Rightarrow> nat \<times> 's" where
  "strided_for off i n step body s =
     (if i + off < n \<and> 0 < step
      then strided_for off (i + step) n step body (body i s)
      else (i, s))"
  by pat_completeness auto
termination
  by (relation "measure (\<lambda>(off, i, n, step, body, s). n - (i + off))") auto

text \<open>\<open>for (; offset > lo; offset /= 2) body(offset)\<close>.\<close>

function halving_for :: "nat \<Rightarrow> nat \<Rightarrow> (nat \<Rightarrow> 's \<Rightarrow> 's) \<Rightarrow> 's \<Rightarrow> 's" where
  "halving_for lo offset body s =
     (if offset > lo then halving_for lo (offset div 2) body (body offset s) else s)"
  by pat_completeness auto
termination
  by (relation "measure (\<lambda>(lo, offset, body, s). offset)") auto

section \<open>cuWelfordMuSigma2\<close>

text \<open>
  The statement \<open>if (!rms_only) cuWelfordOnlineSum(curr, mu, sigma2, count); else
  cuRMSOnlineSum(curr, sigma2);\<close> and the merge statement of the reductions.
\<close>

fun online_sum :: "bool \<Rightarrow> real \<Rightarrow> acc \<Rightarrow> acc" where
  "online_sum rms_only curr0 (mu, sigma2, count) =
     (if \<not> rms_only then cuWelfordOnlineSum curr0 (mu, sigma2, count)
      else (mu, cuRMSOnlineSum curr0 sigma2, count))"

fun chan_merge :: "bool \<Rightarrow> acc \<Rightarrow> acc \<Rightarrow> acc" where
  "chan_merge rms_only (muB, sigma2B, countB) (mu, sigma2, count) =
     (if \<not> rms_only then cuChanOnlineSum muB sigma2B countB (mu, sigma2, count)
      else (mu, cuChanRMSOnlineSum sigma2B sigma2, count))"

text \<open>
  The loop pair that cuWelfordMuSigma2 and cuComputeGradInput share: for thread
  \<open>thrx\<close> of \<open>numx\<close>,
  \<open>int l = 4 * thrx; for (; l + 3 < n2; l += 4 * numx) for (int k = 0; k < 4; ++k)
  body(l + k); for (; l < n2; ++l) body(l);\<close>
\<close>

definition unroll4_for :: "nat \<Rightarrow> nat \<Rightarrow> nat \<Rightarrow> (nat \<Rightarrow> 's \<Rightarrow> 's) \<Rightarrow> 's \<Rightarrow> 's" where
  "unroll4_for n2 numx thrx body s =
     (let (l, s') = strided_for 3 (4 * thrx) n2 (4 * numx)
                      (\<lambda>l. fold (\<lambda>k. body (l + k)) [0..<4]) s
      in fold body [l..<n2] s')"

text \<open>One thread's pass over the row \<open>lvals\<close>, from \<open>count = mu = sigma2 = 0\<close>.\<close>

definition thread_moments ::
  "formats \<Rightarrow> bool \<Rightarrow> array \<Rightarrow> nat \<Rightarrow> nat \<Rightarrow> nat \<Rightarrow> acc" where
  "thread_moments fm rms_only lvals n2 numx thrx =
     unroll4_for n2 numx thrx (\<lambda>l. online_sum rms_only (castU fm (lvals l))) (0, 0, 0)"

text \<open>
  Intra-warp reduction step \<open>l\<close>: every lane reads the accumulator of lane
  \<open>(threadIdx.x + (1 << l)) & 31\<close> of its warp with \<open>__shfl_sync\<close> and merges it into its
  own.  With \<open>blockDim.x == warpSize\<close> (assumption 1 of the source) a warp is the row
  \<open>threadIdx.y\<close> of the block and the lane is \<open>threadIdx.x\<close>.
\<close>

definition warp_merge_step :: "bool \<Rightarrow> nat \<Rightarrow> (nat \<Rightarrow> nat \<Rightarrow> acc) \<Rightarrow> nat \<Rightarrow> nat \<Rightarrow> acc" where
  "warp_merge_step rms_only l r =
     (\<lambda>tx ty. let srcLaneB = (tx + 2 ^ l) mod 32
              in chan_merge rms_only (r srcLaneB ty) (r tx ty))"

text \<open>
  One level of the inter-warp tree: the upper half of the warps store to shared memory
  (\<open>ubuf = buf\<close>, \<open>ibuf = ubuf + blockDim.y\<close>), barrier, the lower half merge.
\<close>

definition interwarp_step ::
  "dim3 \<Rightarrow> bool \<Rightarrow> nat \<Rightarrow> (nat \<Rightarrow> nat \<Rightarrow> acc) \<times> array \<Rightarrow> (nat \<Rightarrow> nat \<Rightarrow> acc) \<times> array" where
  "interwarp_step bd rms_only offset = (\<lambda>(r, buf).
     let buf' = par_store bd (\<lambda>tx ty b.
                  if tx = 0 \<and> ty \<ge> offset \<and> ty < 2 * offset
                  then (case r tx ty of (mu, sigma2, count) \<Rightarrow>
                          let wrt_y = ty - offset;
                              b1 = (if \<not> rms_only
                                    then b(2 * wrt_y := mu, dimy bd + wrt_y := count)
                                    else b)
                          in b1(2 * wrt_y + 1 := sigma2))
                  else b) buf;
         r' = (\<lambda>tx ty.
                  if tx = 0 \<and> ty < offset
                  then chan_merge rms_only
                         (buf' (2 * ty), buf' (2 * ty + 1), buf' (dimy bd + ty)) (r tx ty)
                  else r tx ty)
     in (r', buf'))"

text \<open>
  The device function, executed by all threads of a block for row \<open>i1\<close>: it returns
  every thread's \<open>(mu, sigma2)\<close> and the shared buffer.
\<close>

definition cuWelfordMuSigma2 ::
  "dim3 \<Rightarrow> formats \<Rightarrow> array \<Rightarrow> nat \<Rightarrow> nat \<Rightarrow> nat \<Rightarrow> array \<Rightarrow> bool
     \<Rightarrow> (nat \<Rightarrow> nat \<Rightarrow> real \<times> real) \<times> array" where
  "cuWelfordMuSigma2 bd fm vals n1 n2 i1 buf rms_only =
     (if i1 < n1 then
        let numx = dimx bd * dimy bd;
            lvals = (\<lambda>l. vals (i1 * n2 + l));
            r0 = (\<lambda>tx ty. thread_moments fm rms_only lvals n2 numx (tx + ty * dimx bd));
            r1 = fold (warp_merge_step rms_only) [0..<5] r0
        in if dimy bd > 1 then
             let (r2, buf2) = halving_for 0 (dimy bd div 2) (interwarp_step bd rms_only) (r1, buf);
                 buf3 = (case r2 0 0 of (mu, sigma2, count) \<Rightarrow>
                           (if \<not> rms_only then buf2(0 := mu) else buf2)(1 := sigma2))
             in ((\<lambda>tx ty. case r2 tx ty of (mu, sigma2, count) \<Rightarrow>
                    (if \<not> rms_only then buf3 0 else mu, buf3 1 / real n2)), buf3)
           else
             ((\<lambda>tx ty. case r1 tx ty of (mu, sigma2, count) \<Rightarrow>
                 (if \<not> rms_only then fst (r1 0 ty) else mu,
                  fst (snd (r1 0 ty)) / real n2)), buf)
      else ((\<lambda>tx ty. (0, 0)), buf))"

section \<open>cuApplyLayerNorm_, cuApplyRMSNorm and HostApplyRMSNorm\<close>

text \<open>The value stored to \<open>ovals[i]\<close>, by the branch the pointers and the mode select.\<close>

fun normalized_elem ::
  "formats \<Rightarrow> array option \<Rightarrow> array option \<Rightarrow> bool \<Rightarrow> real \<Rightarrow> real \<Rightarrow> nat \<Rightarrow> real \<Rightarrow> real" where
  "normalized_elem fm (Some gamma) beta True c_invvar mu i curr0 =
     mulV fm (gamma i) (castV fm (c_invvar * curr0))"
| "normalized_elem fm (Some gamma) (Some beta) False c_invvar mu i curr0 =
     addV fm (mulV fm (gamma i) (castV fm (c_invvar * (curr0 - mu)))) (beta i)"
| "normalized_elem fm gamma beta rms_only c_invvar mu i curr0 =
     (if \<not> rms_only then castV fm (c_invvar * (curr0 - mu))
      else castV fm (c_invvar * curr0))"

text \<open>
  The global memory the forward kernel writes: \<open>output_vals\<close>, \<open>mean\<close> (which may be
  \<open>NULL\<close>) and \<open>invvar\<close>; with it travels the block's shared buffer.
\<close>

type_synonym fwd_state = "array \<times> array option \<times> array \<times> array"

text \<open>The body of the row loop of \<open>cuApplyLayerNorm_\<close> for row \<open>i1\<close>.\<close>

fun cuApplyLayerNorm_row ::
  "dim3 \<Rightarrow> formats \<Rightarrow> array \<Rightarrow> nat \<Rightarrow> nat \<Rightarrow> real \<Rightarrow> array option \<Rightarrow> array option \<Rightarrow> bool
     \<Rightarrow> nat \<Rightarrow> fault + fwd_state \<Rightarrow> fault + fwd_state" where
  "cuApplyLayerNorm_row bd fm vals n1 n2 epsilon gamma beta rms_only i1 (Inl e) = Inl e"
| "cuApplyLayerNorm_row bd fm vals n1 n2 epsilon gamma beta rms_only i1
     (Inr (output_vals, mean, invvar, buf)) =
     (let (ms, buf') = cuWelfordMuSigma2 bd fm vals n1 n2 i1 buf rms_only;
          lvals = (\<lambda>i. vals (i1 * n2 + i));
          c_invvar = (\<lambda>tx ty. rsqrt (snd (ms tx ty) + epsilon));
          numx = dimx bd * dimy bd;
          output_vals' = par_store bd (\<lambda>tx ty ov.
              snd (strided_for 0 (tx + ty * dimx bd) n2 numx
                     (\<lambda>i ov. ov(i1 * n2 + i :=
                         normalized_elem fm gamma beta rms_only (c_invvar tx ty)
                           (fst (ms tx ty)) i (castU fm (lvals i))))
                     ov)) output_vals
      in if \<not> rms_only
         then (case mean of
                 None \<Rightarrow> Inl NullPointerWrite
               | Some m \<Rightarrow> Inr (output_vals', Some (m(i1 := fst (ms 0 0))),
                              invvar(i1 := c_invvar 0 0), buf'))
         else Inr (output_vals', mean, invvar(i1 := c_invvar 0 0), buf'))"

text \<open>
  The device function \<open>cuApplyLayerNorm_\<close> (a constant's name cannot end in an
  underscore) for block \<open>blockIdx.y\<close> of a grid of \<open>gridDim.y\<close> blocks; \<open>buf\<close>
  is the content of the block's dynamic shared memory when it starts.
\<close>

definition cuApplyLayerNorm ::
  "nat \<Rightarrow> dim3 \<Rightarrow> nat \<Rightarrow> formats \<Rightarrow> array \<Rightarrow> array \<Rightarrow> array option \<Rightarrow> array \<Rightarrow> array
     \<Rightarrow> nat \<Rightarrow> nat \<Rightarrow> real \<Rightarrow> array option \<Rightarrow> array option \<Rightarrow> bool
     \<Rightarrow> fault + array \<times> array option \<times> array" where
  "cuApplyLayerNorm gridDim_y bd blockIdx_y fm buf output_vals mean invvar vals
       n1 n2 epsilon gamma beta rms_only =
     (case snd (strided_for 0 blockIdx_y n1 gridDim_y
                  (cuApplyLayerNorm_row bd fm vals n1 n2 epsilon gamma beta rms_only)
                  (Inr (output_vals, mean, invvar, buf))) of
        Inl e \<Rightarrow> Inl e
      | Inr (output_vals', mean', invvar', buf') \<Rightarrow> Inr (output_vals', mean', invvar'))"

text \<open>The kernel \<open>cuApplyRMSNorm\<close>, for one block.\<close>

definition cuApplyRMSNorm ::
  "nat \<Rightarrow> dim3 \<Rightarrow> nat \<Rightarrow> formats \<Rightarrow> array \<Rightarrow> array \<Rightarrow> array \<Rightarrow> array
     \<Rightarrow> nat \<Rightarrow> nat \<Rightarrow> real \<Rightarrow> array option \<Rightarrow> fault + array \<times> array" where
  "cuApplyRMSNorm gridDim_y bd blockIdx_y fm buf output_vals invvar vals n1 n2 epsilon gamma =
     (case cuApplyLayerNorm gridDim_y bd blockIdx_y fm buf output_vals None invvar vals
             n1 n2 epsilon gamma None True of
        Inl e \<Rightarrow> Inl e
      | Inr (output_vals', mean', invvar') \<Rightarrow> Inr (output_vals', invvar'))"

text \<open>
  The launch \<open>cuApplyRMSNorm<<<blocks, threads, nshared, stream>>>\<close> with
  \<open>threads = (32, 4, 1)\<close> and \<open>blocks = (1, min(n1, maxGridY), 1)\<close>: the blocks run one
  after the other on the global memory.  \<open>maxGridY\<close> is the device attribute
  \<open>cudaDevAttrMaxGridDimY\<close>; \<open>smem b\<close> is the initial shared memory of block \<open>b\<close>.
\<close>

definition HostApplyRMSNorm ::
  "nat \<Rightarrow> formats \<Rightarrow> (nat \<Rightarrow> array) \<Rightarrow> array \<Rightarrow> array \<Rightarrow> array
     \<Rightarrow> nat \<Rightarrow> nat \<Rightarrow> real \<Rightarrow> array option \<Rightarrow> fault + array \<times> array" where
  "HostApplyRMSNorm maxGridY fm smem output invvar input n1 n2 epsilon gamma =
     (let threads_dim = \<lparr>dimx = 32, dimy = 4\<rparr>;
          blocks_y = min n1 maxGridY
      in fold (\<lambda>blockIdx_y st.
                 case st of
                   Inl e \<Rightarrow> Inl e
                 | Inr (output', invvar') \<Rightarrow>
                     cuApplyRMSNorm blocks_y threads_dim blockIdx_y fm (smem blockIdx_y)
                       output' invvar' input n1 n2 (castU fm epsilon) gamma)
              [0..<blocks_y] (Inr (output, invvar)))"

section \<open>cuComputeGradInput\<close>

text \<open>
  The body of the two loops that accumulate \<open>sum_loss1\<close> and \<open>sum_loss2\<close> at element
  \<open>l\<close> of row \<open>i1\<close>; \<open>c_mean = mean[i1]\<close> is read in full mode only.
\<close>

definition sum_loss_body ::
  "formats \<Rightarrow> array option \<Rightarrow> bool \<Rightarrow> array \<Rightarrow> array \<Rightarrow> array \<Rightarrow> nat \<Rightarrow> real
     \<Rightarrow> nat \<Rightarrow> real \<times> real \<Rightarrow> real \<times> real" where
  "sum_loss_body fm gamma rms_only k_input k_dout mean i1 c_invvar l = (\<lambda>(sum_loss1, sum_loss2).
     let c_h = castU fm (k_input l);
         c_loss = castU fm (k_dout l)
     in case gamma of
          Some g \<Rightarrow>
            if \<not> rms_only
            then (sum_loss1 + c_loss * castU fm (g l),
                  sum_loss2 + c_loss * castU fm (g l) * (c_h - mean i1) * c_invvar)
            else (sum_loss1, sum_loss2 + c_loss * castU fm (g l) * c_h * c_invvar)
        | None \<Rightarrow>
            if \<not> rms_only
            then (sum_loss1 + c_loss, sum_loss2 + c_loss * (c_h - mean i1) * c_invvar)
            else (sum_loss1, sum_loss2 + c_loss * c_h * c_invvar))"

text \<open>
  Intra-warp reduction with \<open>__shfl_xor_sync\<close>: every lane adds the sums of lane
  \<open>threadIdx.x ^ mask\<close> of its warp.
\<close>

definition shfl_xor_step ::
  "bool \<Rightarrow> nat \<Rightarrow> (nat \<Rightarrow> nat \<Rightarrow> real \<times> real) \<Rightarrow> nat \<Rightarrow> nat \<Rightarrow> real \<times> real" where
  "shfl_xor_step rms_only lane_mask r =
     (\<lambda>tx ty. case r tx ty of (sum_loss1, sum_loss2) \<Rightarrow>
        (if \<not> rms_only then sum_loss1 + fst (r (tx XOR lane_mask) ty) else sum_loss1,
         sum_loss2 + snd (r (tx XOR lane_mask) ty)))"

text \<open>One level of the inter-warp tree of cuComputeGradInput.\<close>

definition grad_input_interwarp_step ::
  "dim3 \<Rightarrow> bool \<Rightarrow> nat \<Rightarrow> (nat \<Rightarrow> nat \<Rightarrow> real \<times> real) \<times> array
     \<Rightarrow> (nat \<Rightarrow> nat \<Rightarrow> real \<times> real) \<times> array" where
  "grad_input_interwarp_step bd rms_only offset = (\<lambda>(r, buf).
     let buf' = par_store bd (\<lambda>tx ty b.
                  if ty \<ge> offset \<and> ty < 2 * offset
                  then (case r tx ty of (sum_loss1, sum_loss2) \<Rightarrow>
                          let wrt_i = (ty - offset) * dimx bd + tx;
                              b1 = (if \<not> rms_only then b(2 * wrt_i := sum_loss1) else b)
                          in b1(2 * wrt_i + 1 := sum_loss2))
                  else b) buf;
         r' = (\<lambda>tx ty.
                  if ty < offset
                  then (case r tx ty of (sum_loss1, sum_loss2) \<Rightarrow>
                          let read_i = ty * dimx bd + tx
                          in (if \<not> rms_only then sum_loss1 + buf' (2 * read_i) else sum_loss1,
                              sum_loss2 + buf' (2 * read_i + 1)))
                  else r tx ty)
     in (r', buf'))"

text \<open>The value \<open>f_grad_input\<close> stored (after the cast to \<open>T\<close>) at element \<open>l\<close>.\<close>

definition f_grad_input ::
  "formats \<Rightarrow> array option \<Rightarrow> bool \<Rightarrow> array \<Rightarrow> array \<Rightarrow> array \<Rightarrow> nat \<Rightarrow> real \<Rightarrow> nat
     \<Rightarrow> real \<Rightarrow> real \<Rightarrow> nat \<Rightarrow> real" where
  "f_grad_input fm gamma rms_only k_input k_dout mean i1 c_invvar n2 sum_loss1 sum_loss2 l =
     (let fH = real n2;
          term1 = (1 / fH) * c_invvar;
          c_h = castU fm (k_input l);
          c_loss = castU fm (k_dout l);
          f0 = (case gamma of Some g \<Rightarrow> fH * c_loss * castU fm (g l) | None \<Rightarrow> fH * c_loss);
          f1 = (if \<not> rms_only
                then (f0 - sum_loss1) - (c_h - mean i1) * c_invvar * sum_loss2
                else f0 - c_h * c_invvar * sum_loss2)
      in f1 * term1)"

text \<open>
  The first half of the body of the row loop of cuComputeGradInput: every thread's
  \<open>(sum_loss1, sum_loss2)\<close> when "all threads now have the two sums over l", and the
  shared buffer.
\<close>

definition grad_input_sums ::
  "dim3 \<Rightarrow> formats \<Rightarrow> array \<Rightarrow> array \<Rightarrow> nat \<Rightarrow> array \<Rightarrow> array \<Rightarrow> array option \<Rightarrow> bool
     \<Rightarrow> nat \<Rightarrow> array \<Rightarrow> (nat \<Rightarrow> nat \<Rightarrow> real \<times> real) \<times> array" where
  "grad_input_sums bd fm dout input n2 mean invvar gamma rms_only i1 buf =
     (let c_invvar = invvar i1;
          k_input = (\<lambda>l. input (i1 * n2 + l));
          k_dout = (\<lambda>l. dout (i1 * n2 + l));
          numx = dimx bd * dimy bd;
          r0 = (\<lambda>tx ty. unroll4_for n2 numx (tx + ty * dimx bd)
                  (sum_loss_body fm gamma rms_only k_input k_dout mean i1 c_invvar) (0, 0));
          r1 = halving_for 0 (dimx bd div 2) (shfl_xor_step rms_only) r0
      in if dimy bd > 1 then
           let (r2, buf2) = halving_for 0 (dimy bd div 2)
                              (grad_input_interwarp_step bd rms_only) (r1, buf);
               buf3 = par_store bd (\<lambda>tx ty b.
                        if ty = 0
                        then (case r2 tx ty of (sum_loss1, sum_loss2) \<Rightarrow>
                                (if \<not> rms_only then b(2 * tx := sum_loss1) else b)
                                  (2 * tx + 1 := sum_loss2))
                        else b) buf2;
               r3 = (\<lambda>tx ty.
                       if ty \<noteq> 0
                       then (case r2 tx ty of (sum_loss1, sum_loss2) \<Rightarrow>
                               (if \<not> rms_only then buf3 (2 * tx) else sum_loss1,
                                buf3 (2 * tx + 1)))
                       else r2 tx ty)
           in (r3, buf3)
         else (r1, buf))"

text \<open>The body of the row loop of cuComputeGradInput, on \<open>grad_input\<close> and the shared buffer.\<close>

definition cuComputeGradInput_row ::
  "dim3 \<Rightarrow> formats \<Rightarrow> array \<Rightarrow> array \<Rightarrow> nat \<Rightarrow> nat \<Rightarrow> array \<Rightarrow> array \<Rightarrow> array option \<Rightarrow> bool
     \<Rightarrow> nat \<Rightarrow> array \<times> array \<Rightarrow> array \<times> array" where
  "cuComputeGradInput_row bd fm dout input n1 n2 mean invvar gamma rms_only i1 =
     (\<lambda>(grad_input, buf).
     let c_invvar = invvar i1;
         k_input = (\<lambda>l. input (i1 * n2 + l));
         k_dout = (\<lambda>l. dout (i1 * n2 + l));
         numx = dimx bd * dimy bd;
         (r3, buf3) = grad_input_sums bd fm dout input n2 mean invvar gamma rms_only i1 buf;
         grad_input' = par_store bd (\<lambda>tx ty gi.
             snd (strided_for 0 (tx + ty * dimx bd) n2 numx
                    (\<lambda>l gi. gi(i1 * n2 + l :=
                        castT fm (f_grad_input fm gamma rms_only k_input k_dout mean i1 c_invvar n2
                                    (fst (r3 tx ty)) (snd (r3 tx ty)) l)))
                    gi)) grad_input
     in (grad_input', buf3))"

text \<open>The kernel for block \<open>blockIdx.y\<close> of \<open>gridDim.y\<close>; \<open>epsilon\<close> is not used.\<close>

definition cuComputeGradInput ::
  "nat \<Rightarrow> dim3 \<Rightarrow> nat \<Rightarrow> formats \<Rightarrow> array \<Rightarrow> array \<Rightarrow> array \<Rightarrow> nat \<Rightarrow> nat \<Rightarrow> array \<Rightarrow> array
     \<Rightarrow> real \<Rightarrow> array option \<Rightarrow> array \<Rightarrow> bool \<Rightarrow> array" where
  "cuComputeGradInput gridDim_y bd blockIdx_y fm buf dout input n1 n2 mean invvar epsilon
       gamma grad_input rms_only =
     fst (snd (strided_for 0 blockIdx_y n1 gridDim_y
                 (cuComputeGradInput_row bd fm dout input n1 n2 mean invvar gamma rms_only)
                 (grad_input, buf)))"

section \<open>cuComputePartGradGammaBeta and cuComputeGradGammaBeta\<close>

text \<open>
  The two tiles \<open>warp_buf1\<close> and \<open>warp_buf2\<close> are regions of the shared buffer; a tile
  pointer is its offset in \<open>buf\<close>.  Both device functions are executed by one thread.
\<close>

definition cuLoadWriteStridedInputs ::
  "nat \<Rightarrow> formats \<Rightarrow> nat \<Rightarrow> nat \<Rightarrow> nat \<Rightarrow> nat \<Rightarrow> nat \<Rightarrow> nat \<Rightarrow> nat \<Rightarrow> array \<Rightarrow> array
     \<Rightarrow> nat \<Rightarrow> nat \<Rightarrow> array \<Rightarrow> array \<Rightarrow> bool \<Rightarrow> array \<Rightarrow> array" where
  "cuLoadWriteStridedInputs blockDim_y fm i1_block thr_load_row_off thr_load_col_off i2_off
       row_stride warp_buf1 warp_buf2 input dout i1_end n2 mean invvar rms_only buf =
     (let i1 = i1_block + thr_load_row_off
      in if i1 < i1_end then
           fold (\<lambda>k b.
                   let i2 = i2_off + k;
                       load_idx = i1 * n2 + i2;
                       write_idx = thr_load_row_off * row_stride + thr_load_col_off + k
                   in if i2 < n2 then
                        let curr_input = castU fm (input load_idx);
                            curr_dout = castU fm (dout load_idx)
                        in if \<not> rms_only
                           then b(warp_buf1 + write_idx := curr_dout,
                                  warp_buf2 + write_idx :=
                                    curr_dout * (curr_input - mean i1) * invvar i1)
                           else b(warp_buf2 + write_idx := curr_dout * curr_input * invvar i1)
                      else (if \<not> rms_only then b(warp_buf1 + write_idx := 0) else b)
                             (warp_buf2 + write_idx := 0))
                [0..<blockDim_y] buf
         else
           fold (\<lambda>k b.
                   let write_idx = thr_load_row_off * row_stride + thr_load_col_off + k
                   in (if \<not> rms_only then b(warp_buf1 + write_idx := 0) else b)
                        (warp_buf2 + write_idx := 0))
                [0..<blockDim_y] buf)"

definition cuLoadAddStridedInputs ::
  "nat \<Rightarrow> formats \<Rightarrow> nat \<Rightarrow> nat \<Rightarrow> nat \<Rightarrow> nat \<Rightarrow> nat \<Rightarrow> nat \<Rightarrow> nat \<Rightarrow> array \<Rightarrow> array
     \<Rightarrow> nat \<Rightarrow> nat \<Rightarrow> array \<Rightarrow> array \<Rightarrow> bool \<Rightarrow> array \<Rightarrow> array" where
  "cuLoadAddStridedInputs blockDim_y fm i1_block thr_load_row_off thr_load_col_off i2_off
       row_stride warp_buf1 warp_buf2 input dout i1_end n2 mean invvar rms_only buf =
     (let i1 = i1_block + thr_load_row_off
      in if i1 < i1_end then
           fold (\<lambda>k b.
                   let i2 = i2_off + k;
                       load_idx = i1 * n2 + i2;
                       write_idx = thr_load_row_off * row_stride + thr_load_col_off + k
                   in if i2 < n2 then
                        let curr_input = castU fm (input load_idx);
                            curr_dout = castU fm (dout load_idx)
                        in if \<not> rms_only
                           then b(warp_buf1 + write_idx := b (warp_buf1 + write_idx) + curr_dout,
                                  warp_buf2 + write_idx := b (warp_buf2 + write_idx)
                                    + curr_dout * (curr_input - mean i1) * invvar i1)
                           else b(warp_buf2 + write_idx := b (warp_buf2 + write_idx)
                                    + curr_dout * curr_input * invvar i1)
                      else b)
                [0..<blockDim_y] buf
         else buf)"

text \<open>
  The kernel for block \<open>(blockIdx.x, blockIdx.y)\<close> of a grid with \<open>gridDim.y\<close> rows of
  blocks, in two parts.  First the shared buffer up to the last barrier: each thread
  loads its cells of the tiles (the write pass, then its loop of add passes), barrier;
  each thread sums a column of tile rows into row \<open>threadIdx.y\<close>, barrier; the rows are
  summed pairwise down to two.
\<close>

definition part_grad_tiles ::
  "nat \<Rightarrow> dim3 \<Rightarrow> nat \<Rightarrow> nat \<Rightarrow> formats \<Rightarrow> array \<Rightarrow> array \<Rightarrow> array \<Rightarrow> nat \<Rightarrow> nat \<Rightarrow> array
     \<Rightarrow> array \<Rightarrow> bool \<Rightarrow> array" where
  "part_grad_tiles gridDim_y bd blockIdx_x blockIdx_y fm buf dout input n1 n2
       mean invvar rms_only =
     (let numsegs_n1 = (n1 + dimy bd * dimy bd - 1) div (dimy bd * dimy bd);
          segs_per_block = (numsegs_n1 + gridDim_y - 1) div gridDim_y;
          i1_beg = blockIdx_y * segs_per_block * dimy bd * dimy bd;
          i1_beg_plus_one = (blockIdx_y + 1) * segs_per_block * dimy bd * dimy bd;
          i1_end = (if i1_beg_plus_one < n1 then i1_beg_plus_one else n1);
          row_stride = dimx bd + 1;
          thr_load_col_off = (\<lambda>tx. (tx * dimy bd) AND (dimx bd - 1));
          thr_load_row_off = (\<lambda>tx ty. (tx * dimy bd) div dimx bd + ty * dimy bd);
          i2_off = (\<lambda>tx. blockIdx_x * dimx bd + thr_load_col_off tx);
          warp_buf1 = 0;
          warp_buf2 = warp_buf1 + dimy bd * dimy bd * row_stride;
          buf1 = par_store bd (\<lambda>tx ty b.
                   snd (strided_for 0 (i1_beg + dimy bd * dimy bd) i1_end (dimy bd * dimy bd)
                          (\<lambda>i1_block. cuLoadAddStridedInputs (dimy bd) fm i1_block
                              (thr_load_row_off tx ty) (thr_load_col_off tx) (i2_off tx)
                              row_stride warp_buf1 warp_buf2 input dout i1_end n2 mean invvar
                              rms_only)
                          (cuLoadWriteStridedInputs (dimy bd) fm i1_beg
                              (thr_load_row_off tx ty) (thr_load_col_off tx) (i2_off tx)
                              row_stride warp_buf1 warp_buf2 input dout i1_end n2 mean invvar
                              rms_only b))) buf;
          buf2 = par_store bd (\<lambda>tx ty b.
                   let acc1 = fold (\<lambda>k acc. if \<not> rms_only
                                     then acc + b (warp_buf1 + (ty + k * dimy bd) * row_stride + tx)
                                     else acc) [0..<dimy bd] 0;
                       acc2 = fold (\<lambda>k acc.
                                     acc + b (warp_buf2 + (ty + k * dimy bd) * row_stride + tx))
                                [0..<dimy bd] 0
                   in (if \<not> rms_only then b(warp_buf1 + ty * row_stride + tx := acc1) else b)
                        (warp_buf2 + ty * row_stride + tx := acc2)) buf1
      in halving_for 1 (dimy bd div 2) (\<lambda>offset. par_store bd (\<lambda>tx ty b.
                   if ty < offset then
                     let row1 = ty;
                         row2 = ty + offset;
                         idx1 = row1 * row_stride + tx;
                         idx2 = row2 * row_stride + tx
                     in (if \<not> rms_only
                         then b(warp_buf1 + idx1 := b (warp_buf1 + idx1) + b (warp_buf1 + idx2))
                         else b)
                          (warp_buf2 + idx1 := b (warp_buf2 + idx1) + b (warp_buf2 + idx2))
                   else b)) buf2)"

text \<open>
  Then warp 0 stores the sum of the two remaining rows.  The kernel returns
  \<open>part_grad_gamma\<close> and \<open>part_grad_beta\<close>; \<open>epsilon\<close> is not used.
\<close>

definition cuComputePartGradGammaBeta ::
  "nat \<Rightarrow> dim3 \<Rightarrow> nat \<Rightarrow> nat \<Rightarrow> formats \<Rightarrow> array \<Rightarrow> array \<Rightarrow> array \<Rightarrow> nat \<Rightarrow> nat \<Rightarrow> array
     \<Rightarrow> array \<Rightarrow> real \<Rightarrow> array \<Rightarrow> array \<Rightarrow> bool \<Rightarrow> array \<times> array" where
  "cuComputePartGradGammaBeta gridDim_y bd blockIdx_x blockIdx_y fm buf dout input n1 n2
       mean invvar epsilon part_grad_gamma part_grad_beta rms_only =
     (let row_stride = dimx bd + 1;
          warp_buf1 = 0;
          warp_buf2 = warp_buf1 + dimy bd * dimy bd * row_stride;
          buf3 = part_grad_tiles gridDim_y bd blockIdx_x blockIdx_y fm buf dout input n1 n2
                   mean invvar rms_only
      in par_store bd (\<lambda>tx ty (pgg, pgb).
           let i2 = blockIdx_x * dimx bd + tx
           in if ty = 0 \<and> i2 < n2 then
                let row1 = ty;
                    row2 = ty + 1;
                    idx1 = row1 * row_stride + tx;
                    idx2 = row2 * row_stride + tx
                in (pgg(blockIdx_y * n2 + i2 := buf3 (warp_buf2 + idx1) + buf3 (warp_buf2 + idx2)),
                    if \<not> rms_only
                    then pgb(blockIdx_y * n2 + i2 := buf3 (warp_buf1 + idx1) + buf3 (warp_buf1 + idx2))
                    else pgb)
              else (pgg, pgb)) (part_grad_gamma, part_grad_beta))"

text \<open>
  cuComputeGradGammaBeta for block \<open>blockIdx.x\<close>; it returns \<open>grad_gamma\<close> and
  \<open>grad_beta\<close>.  A thread with \<open>i2 \<ge> n2\<close> does nothing.  The registers of a thread are
  the pair \<open>(sum_gamma, sum_beta)\<close>; the store of a sum to a gradient array converts it
  from \<open>U\<close> to \<open>V\<close>.
\<close>

definition grad_gamma_interwarp_step ::
  "dim3 \<Rightarrow> nat \<Rightarrow> nat \<Rightarrow> bool \<Rightarrow> nat \<Rightarrow> (nat \<Rightarrow> nat \<Rightarrow> real \<times> real) \<times> array
     \<Rightarrow> (nat \<Rightarrow> nat \<Rightarrow> real \<times> real) \<times> array" where
  "grad_gamma_interwarp_step bd blockIdx_x n2 rms_only offset = (\<lambda>(r, buf).
     let nbsize3 = dimx bd * dimy bd div 2;
         buf' = par_store bd (\<lambda>tx ty b.
                  if blockIdx_x * dimx bd + tx < n2 \<and> ty \<ge> offset \<and> ty < 2 * offset
                  then (case r tx ty of (sum_gamma, sum_beta) \<Rightarrow>
                          let write_idx = (ty - offset) * dimx bd + tx;
                              b1 = b(write_idx := sum_gamma)
                          in if \<not> rms_only then b1(write_idx + nbsize3 := sum_beta) else b1)
                  else b) buf;
         r' = (\<lambda>tx ty.
                  if blockIdx_x * dimx bd + tx < n2 \<and> ty < offset
                  then (case r tx ty of (sum_gamma, sum_beta) \<Rightarrow>
                          let read_idx = ty * dimx bd + tx
                          in (sum_gamma + buf' read_idx,
                              if \<not> rms_only then sum_beta + buf' (read_idx + nbsize3)
                              else sum_beta))
                  else r tx ty)
     in (r', buf'))"

text \<open>Every thread's sums when the inter-warp reductions are done.\<close>

definition grad_gamma_sums ::
  "dim3 \<Rightarrow> nat \<Rightarrow> array \<Rightarrow> array \<Rightarrow> array \<Rightarrow> nat \<Rightarrow> nat \<Rightarrow> bool
     \<Rightarrow> nat \<Rightarrow> nat \<Rightarrow> real \<times> real" where
  "grad_gamma_sums bd blockIdx_x buf part_grad_gamma part_grad_beta part_size n2 rms_only =
     (let num_warp_reductions = part_size div dimy bd;
          r0 = (\<lambda>tx ty.
                  let i2 = blockIdx_x * dimx bd + tx
                  in fold (\<lambda>warp_offset (sum_gamma, sum_beta).
                             (sum_gamma
                                + part_grad_gamma (ty * num_warp_reductions * n2 + i2
                                                     + warp_offset * n2),
                              if \<not> rms_only
                              then sum_beta
                                     + part_grad_beta (ty * num_warp_reductions * n2 + i2
                                                         + warp_offset * n2)
                              else sum_beta))
                          [0..<num_warp_reductions] (0, 0))
      in fst (halving_for 0 (dimy bd div 2)
                (grad_gamma_interwarp_step bd blockIdx_x n2 rms_only) (r0, buf)))"

definition cuComputeGradGammaBeta ::
  "dim3 \<Rightarrow> nat \<Rightarrow> formats \<Rightarrow> array \<Rightarrow> array \<Rightarrow> array \<Rightarrow> nat \<Rightarrow> nat \<Rightarrow> nat
     \<Rightarrow> array \<Rightarrow> array \<Rightarrow> bool \<Rightarrow> array \<times> array" where
  "cuComputeGradGammaBeta bd blockIdx_x fm buf part_grad_gamma part_grad_beta part_size n1 n2
       grad_gamma grad_beta rms_only =
     (let r1 = grad_gamma_sums bd blockIdx_x buf part_grad_gamma part_grad_beta part_size n2
                 rms_only
      in par_store bd (\<lambda>tx ty (gg, gb).
           let i2 = blockIdx_x * dimx bd + tx
           in if i2 < n2 \<and> ty = 0
              then (case r1 tx ty of (sum_gamma, sum_beta) \<Rightarrow>
                      (gg(i2 := castV fm sum_gamma),
                       if \<not> rms_only then gb(i2 := castV fm sum_beta) else gb))
              else (gg, gb)) (grad_gamma, grad_beta))"

section \<open>HostRMSNormGradient\<close>

text \<open>
  The three launches.  \<open>smem k bx by\<close> is the initial shared memory of block
  \<open>(bx, by)\<close> of the launch with \<open>threads\<close>\<open>k\<close>.  The host passes \<open>invvar\<close> also as
  \<open>mean\<close>, \<open>part_grad_gamma\<close> also as \<open>part_grad_beta\<close> and \<open>grad_gamma\<close> also as
  \<open>grad_beta\<close>; with \<open>rms_only = true\<close> the kernels leave the second of each pair alone,
  so that the content of the shared buffer after a launch is the first result.
  It returns \<open>grad_input\<close>, \<open>grad_gamma\<close> and \<open>part_grad_gamma\<close>.
\<close>

definition HostRMSNormGradient ::
  "nat \<Rightarrow> formats \<Rightarrow> (nat \<Rightarrow> nat \<Rightarrow> nat \<Rightarrow> array) \<Rightarrow> array \<Rightarrow> array \<Rightarrow> array \<Rightarrow> nat \<Rightarrow> nat
     \<Rightarrow> array option \<Rightarrow> real \<Rightarrow> array \<Rightarrow> array \<Rightarrow> nat \<Rightarrow> array \<Rightarrow> array \<times> array \<times> array" where
  "HostRMSNormGradient maxGridY fm smem dout invvar input n1 n2 gamma epsilon grad_input
       grad_gamma part_size part_grad_gamma =
     (let (grad_gamma', part_grad_gamma') =
            (if gamma \<noteq> None then
               let threads2 = \<lparr>dimx = 32, dimy = 4\<rparr>;
                   blocks2 = \<lparr>dimx = (n2 + dimx threads2 - 1) div dimx threads2, dimy = part_size\<rparr>;
                   pgg = par_store blocks2 (\<lambda>blockIdx_x blockIdx_y pgg.
                           fst (cuComputePartGradGammaBeta (dimy blocks2) threads2
                                  blockIdx_x blockIdx_y fm (smem 2 blockIdx_x blockIdx_y)
                                  dout input n1 n2 invvar invvar (castU fm epsilon)
                                  pgg pgg True)) part_grad_gamma;
                   threads3 = \<lparr>dimx = 32, dimy = 8\<rparr>;
                   blocks3 = \<lparr>dimx = (n2 + dimx threads2 - 1) div dimx threads2, dimy = 1\<rparr>;
                   gg = par_store blocks3 (\<lambda>blockIdx_x blockIdx_y gg.
                          fst (cuComputeGradGammaBeta threads3 blockIdx_x fm
                                 (smem 3 blockIdx_x blockIdx_y) pgg pgg part_size n1 n2
                                 gg gg True)) grad_gamma
               in (gg, pgg)
             else (grad_gamma, part_grad_gamma));
          blocks1 = \<lparr>dimx = 1, dimy = min n1 maxGridY\<rparr>;
          threads1 = \<lparr>dimx = 32, dimy = 4\<rparr>;
          grad_input' = par_store blocks1 (\<lambda>blockIdx_x blockIdx_y gi.
                          cuComputeGradInput (dimy blocks1) threads1 blockIdx_y fm
                            (smem 1 blockIdx_x blockIdx_y) dout input n1 n2 invvar invvar
                            (castU fm epsilon) gamma gi True) grad_input
      in (grad_input', grad_gamma', part_grad_gamma'))"

section \<open>The dispatch macro and the entry points\<close>

text \<open>
  Modelled from the spec: the enum \<open>gpu_ops::ElementType\<close> and the struct
  \<open>RMSNormDescriptor\<close> are declared in kernels.h, which is not among the sources.  The
  macro names the enumerators F64, F32, F16 and BF16; the entry points read the fields
  n1, n2, eps, x_type, w_type and part_grad_size (the spec's descriptor \<open>{n1, n2, epsilon,
  input_element_type, weight_element_type, partial_grad_row_count}\<close>).  The descriptor is
  unpacked from opaque bytes, so a type field can hold any other value: \<open>OtherType\<close>.
\<close>

datatype ElementType = F64 | F32 | F16 | BF16 | OtherType nat

record RMSNormDescriptor =
  d_n1 :: nat
  d_n2 :: nat
  d_eps :: real
  d_x_type :: ElementType
  d_w_type :: ElementType
  d_part_grad_size :: nat

text \<open>The conversions to \<open>double\<close>, \<open>float\<close>, \<open>__half\<close> and \<open>__nv_bfloat16\<close>.\<close>

record type_casts =
  to_double :: "real \<Rightarrow> real"
  to_float :: "real \<Rightarrow> real"
  to_half :: "real \<Rightarrow> real"
  to_bfloat16 :: "real \<Rightarrow> real"

text \<open>
  The inner \<open>switch (TYPEOUT)\<close>, the same text in the four cases of the outer switch:
  it runs the statement \<open>__VA_ARGS__\<close> with \<open>scalar_t_out\<close> bound, or, by
  \<open>default: break\<close>, nothing.  The statement is a function of the three types and the
  state.
\<close>

fun dispatch_typeout ::
  "type_casts \<Rightarrow> (real \<Rightarrow> real) \<Rightarrow> (real \<Rightarrow> real) \<Rightarrow> ElementType \<Rightarrow> (formats \<Rightarrow> 's \<Rightarrow> 's)
     \<Rightarrow> 's \<Rightarrow> 's" where
  "dispatch_typeout tc scalar_t_in accscalar_t F64 stmt s =
     stmt \<lparr>castT = scalar_t_in, castU = accscalar_t, castV = to_double tc\<rparr> s"
| "dispatch_typeout tc scalar_t_in accscalar_t F32 stmt s =
     stmt \<lparr>castT = scalar_t_in, castU = accscalar_t, castV = to_float tc\<rparr> s"
| "dispatch_typeout tc scalar_t_in accscalar_t F16 stmt s =
     stmt \<lparr>castT = scalar_t_in, castU = accscalar_t, castV = to_half tc\<rparr> s"
| "dispatch_typeout tc scalar_t_in accscalar_t BF16 stmt s =
     stmt \<lparr>castT = scalar_t_in, castU = accscalar_t, castV = to_bfloat16 tc\<rparr> s"
| "dispatch_typeout tc scalar_t_in accscalar_t (OtherType v) stmt s = s"

text \<open>The macro \<open>DISPATCH_DOUBLE_FLOAT_HALF_AND_BFLOAT_INOUT_TYPES\<close>.\<close>

fun DISPATCH_DOUBLE_FLOAT_HALF_AND_BFLOAT_INOUT_TYPES ::
  "type_casts \<Rightarrow> ElementType \<Rightarrow> ElementType \<Rightarrow> (formats \<Rightarrow> 's \<Rightarrow> 's) \<Rightarrow> 's \<Rightarrow> 's" where
  "DISPATCH_DOUBLE_FLOAT_HALF_AND_BFLOAT_INOUT_TYPES tc F64 TYPEOUT stmt s =
     dispatch_typeout tc (to_double tc) (to_double tc) TYPEOUT stmt s"
| "DISPATCH_DOUBLE_FLOAT_HALF_AND_BFLOAT_INOUT_TYPES tc F32 TYPEOUT stmt s =
     dispatch_typeout tc (to_float tc) (to_float tc) TYPEOUT stmt s"
| "DISPATCH_DOUBLE_FLOAT_HALF_AND_BFLOAT_INOUT_TYPES tc F16 TYPEOUT stmt s =
     dispatch_typeout tc (to_half tc) (to_float tc) TYPEOUT stmt s"
| "DISPATCH_DOUBLE_FLOAT_HALF_AND_BFLOAT_INOUT_TYPES tc BF16 TYPEOUT stmt s =
     dispatch_typeout tc (to_bfloat16 tc) (to_float tc) TYPEOUT stmt s"
| "DISPATCH_DOUBLE_FLOAT_HALF_AND_BFLOAT_INOUT_TYPES tc (OtherType v) TYPEOUT stmt s = s"

text \<open>
  The entry points.  \<open>buffers\<close> is the array of device buffers the runtime passes (none
  of them \<open>NULL\<close>); the state of a call is the buffers, or the fault of a kernel.
\<close>

definition rms_forward_affine_mixed_dtypes ::
  "type_casts \<Rightarrow> nat \<Rightarrow> (nat \<Rightarrow> array) \<Rightarrow> array list \<Rightarrow> RMSNormDescriptor
     \<Rightarrow> fault + array list" where
  "rms_forward_affine_mixed_dtypes tc maxGridY smem buffers d =
     DISPATCH_DOUBLE_FLOAT_HALF_AND_BFLOAT_INOUT_TYPES tc (d_x_type d) (d_w_type d)
       (\<lambda>fm st. case st of
            Inl e \<Rightarrow> Inl e
          | Inr bufs \<Rightarrow>
              (case HostApplyRMSNorm maxGridY fm smem (bufs ! 2) (bufs ! 3) (bufs ! 0)
                      (d_n1 d) (d_n2 d) (d_eps d) (Some (bufs ! 1)) of
                 Inl e \<Rightarrow> Inl e
               | Inr (output', invvar') \<Rightarrow> Inr (bufs[2 := output', 3 := invvar'])))
       (Inr buffers)"

definition rms_backward_affine ::
  "type_casts \<Rightarrow> nat \<Rightarrow> (nat \<Rightarrow> nat \<Rightarrow> nat \<Rightarrow> array) \<Rightarrow> array list \<Rightarrow> RMSNormDescriptor
     \<Rightarrow> fault + array list" where
  "rms_backward_affine tc maxGridY smem buffers d =
     DISPATCH_DOUBLE_FLOAT_HALF_AND_BFLOAT_INOUT_TYPES tc (d_x_type d) (d_w_type d)
       (\<lambda>fm st. case st of
            Inl e \<Rightarrow> Inl e
          | Inr bufs \<Rightarrow>
              (case HostRMSNormGradient maxGridY fm smem (bufs ! 0) (bufs ! 1) (bufs ! 2)
                      (d_n1 d) (d_n2 d) (Some (bufs ! 3)) (d_eps d) (bufs ! 4) (bufs ! 5)
                      (d_part_grad_size d) (bufs ! 6) of
                 (grad_input', grad_gamma', part_grad_gamma') \<Rightarrow>
                   Inr (bufs[4 := grad_input', 5 := grad_gamma', 6 := part_grad_gamma'])))
       (Inr buffers)"

section \<open>The kernel launches of the entry points\<close>

text \<open>
  A launch \<open>kernel<<<blocks, threads, nshared, stream>>>(..., rms_only)\<close> as an event: the
  kernel, the grid, the block, and the value of \<open>rms_only\<close> the device code runs with (the
  last argument of the three gradient kernels; the constant \<open>true\<close> that the kernel
  cuApplyRMSNorm passes to \<open>cuApplyLayerNorm_\<close>).
\<close>

datatype kernel =
  Kernel_cuApplyRMSNorm | Kernel_cuComputePartGradGammaBeta | Kernel_cuComputeGradGammaBeta
  | Kernel_cuComputeGradInput

record launch =
  launch_kernel :: kernel
  launch_blocks :: dim3
  launch_threads :: dim3
  launch_rms_only :: bool

definition HostApplyRMSNorm_launches :: "nat \<Rightarrow> nat \<Rightarrow> launch list" where
  "HostApplyRMSNorm_launches maxGridY n1 =
     [\<lparr>launch_kernel = Kernel_cuApplyRMSNorm,
       launch_blocks = \<lparr>dimx = 1, dimy = min n1 maxGridY\<rparr>,
       launch_threads = \<lparr>dimx = 32, dimy = 4\<rparr>,
       launch_rms_only = True\<rparr>]"

definition HostRMSNormGradient_launches ::
  "nat \<Rightarrow> nat \<Rightarrow> nat \<Rightarrow> array option \<Rightarrow> nat \<Rightarrow> launch list" where
  "HostRMSNormGradient_launches maxGridY n1 n2 gamma part_size =
     (if gamma \<noteq> None
      then [\<lparr>launch_kernel = Kernel_cuComputePartGradGammaBeta,
              launch_blocks = \<lparr>dimx = (n2 + 32 - 1) div 32, dimy = part_size\<rparr>,
              launch_threads = \<lparr>dimx = 32, dimy = 4\<rparr>,
              launch_rms_only = True\<rparr>,
            \<lparr>launch_kernel = Kernel_cuComputeGradGammaBeta,
              launch_blocks = \<lparr>dimx = (n2 + 32 - 1) div 32, dimy = 1\<rparr>,
              launch_threads = \<lparr>dimx = 32, dimy = 8\<rparr>,
              launch_rms_only = True\<rparr>]
      else [])
     @ [\<lparr>launch_kernel = Kernel_cuComputeGradInput,
          launch_blocks = \<lparr>dimx = 1, dimy = min n1 maxGridY\<rparr>,
          launch_threads = \<lparr>dimx = 32, dimy = 4\<rparr>,
          launch_rms_only = True\<rparr>]"

text \<open>The launches of an entry point: those of the host function the dispatch selects.\<close>

definition rms_forward_affine_mixed_dtypes_launches ::
  "type_casts \<Rightarrow> nat \<Rightarrow> RMSNormDescriptor \<Rightarrow> launch list" where
  "rms_forward_affine_mixed_dtypes_launches tc maxGridY d =
     DISPATCH_DOUBLE_FLOAT_HALF_AND_BFLOAT_INOUT_TYPES tc (d_x_type d) (d_w_type d)
       (\<lambda>fm ls. ls @ HostApplyRMSNorm_launches maxGridY (d_n1 d)) []"

definition rms_backward_affine_launches ::
  "type_casts \<Rightarrow> nat \<Rightarrow> array list \<Rightarrow> RMSNormDescriptor \<Rightarrow> launch list" where
  "rms_backward_affine_launches tc maxGridY buffers d =
     DISPATCH_DOUBLE_FLOAT_HALF_AND_BFLOAT_INOUT_TYPES tc (d_x_type d) (d_w_type d)
       (\<lambda>fm ls. ls @ HostRMSNormGradient_launches maxGridY (d_n1 d) (d_n2 d)
                        (Some (buffers ! 3)) (d_part_grad_size d)) []"

section \<open>Auxiliary notions of the verification\<close>










text \<open>The rows a block (or grid-stride loop) starting at \<open>b\<close> with stride \<open>g\<close> visits.\<close>

definition stride_rows :: "nat \<Rightarrow> nat \<Rightarrow> nat \<Rightarrow> nat set" where
  "stride_rows n g b = {i. b \<le> i \<and> i < n \<and> g dvd (i - b)}"

text \<open>
  The row body of \<open>cuApplyLayerNorm_\<close> in RMS-only mode, on the memory it touches there:
  \<open>output_vals\<close>, \<open>invvar\<close> and the shared buffer.
\<close>

definition rms_row_core ::
  "dim3 \<Rightarrow> formats \<Rightarrow> array \<Rightarrow> nat \<Rightarrow> nat \<Rightarrow> real \<Rightarrow> array option \<Rightarrow> array option
     \<Rightarrow> nat \<Rightarrow> array \<times> array \<times> array \<Rightarrow> array \<times> array \<times> array" where
  "rms_row_core bd fm vals n1 n2 eps gamma beta i1 = (\<lambda>(ov, iv, buf).
     (par_store bd (\<lambda>tx ty ov.
              snd (strided_for 0 (tx + ty * dimx bd) n2 (dimx bd * dimy bd)
                     (\<lambda>i ov. ov(i1 * n2 + i :=
                         normalized_elem fm gamma beta True
                           (rsqrt (snd (fst (cuWelfordMuSigma2 bd fm vals n1 n2 i1 buf True) tx ty) + eps))
                           (fst (fst (cuWelfordMuSigma2 bd fm vals n1 n2 i1 buf True) tx ty))
                           i (castU fm (vals (i1 * n2 + i))))) ov)) ov,
      iv(i1 := rsqrt (snd (fst (cuWelfordMuSigma2 bd fm vals n1 n2 i1 buf True) 0 0) + eps)),
      snd (cuWelfordMuSigma2 bd fm vals n1 n2 i1 buf True)))"

text \<open>Conversions that change no value, for concrete instances.\<close>

definition exact_casts :: type_casts where
  "exact_casts = \<lparr>to_double = (\<lambda>v. v), to_float = (\<lambda>v. v), to_half = (\<lambda>v. v),
                   to_bfloat16 = (\<lambda>v. v)\<rparr>"






text \<open>
  The term row \<open>i1\<close> adds to the gamma gradient of column \<open>i2\<close> in RMS-only mode; the
  tiles hold 0 for a column past \<open>n2\<close>.
\<close>

definition gamma_term :: "formats \<Rightarrow> array \<Rightarrow> array \<Rightarrow> nat \<Rightarrow> array \<Rightarrow> nat \<Rightarrow> nat \<Rightarrow> real" where
  "gamma_term fm dout input n2 invvar i1 i2 =
     (if i2 < n2
      then castU fm (dout (i1 * n2 + i2)) * castU fm (input (i1 * n2 + i2)) * invvar i1
      else 0)"
section \<open>Verification\<close>

declare strided_for.simps [simp del]
declare halving_for.simps [simp del]

lemma threads_set: "set (threads d) = {(tx, ty). tx < dimx d \<and> ty < dimy d}"
  by (auto simp: threads_def)

lemma threads_distinct: "distinct (threads d)"
proof (cases "dimx d = 0")
  case True
  then have "threads d = []" by (simp add: threads_def concat_eq_Nil_conv)
  then show ?thesis by simp
next
  case False
  then show ?thesis
    unfolding threads_def
    by (intro distinct_concat) (auto simp: distinct_map inj_on_def)
qed

lemma fold_untouched:
  assumes "\<And>t m. t \<in> set ts \<Longrightarrow> act t m a = m a"
  shows "fold act ts m a = m a"
  using assms by (induction ts arbitrary: m) auto

lemma fold_written:
  assumes "distinct ts" "t0 \<in> set ts"
    and "\<And>m. act t0 m a = v"
    and "\<And>t m. t \<in> set ts \<Longrightarrow> t \<noteq> t0 \<Longrightarrow> act t m a = m a"
  shows "fold act ts m a = v"
  using assms
proof (induction ts arbitrary: m)
  case Nil
  then show ?case by simp
next
  case (Cons t ts)
  show ?case
  proof (cases "t = t0")
    case True
    then have "t0 \<notin> set ts" using Cons.prems(1) by simp
    then have "fold act ts (act t m) a = act t m a"
      using Cons.prems(4) by (intro fold_untouched) auto
    then show ?thesis using True Cons.prems(3) by simp
  next
    case False
    then show ?thesis using Cons by auto
  qed
qed

lemma par_store_untouched:
  assumes "\<And>tx ty m. tx < dimx d \<Longrightarrow> ty < dimy d \<Longrightarrow> stmt tx ty m a = m a"
  shows "par_store d stmt m a = m a"
  unfolding par_store_def
  by (rule fold_untouched) (auto simp: threads_set assms)

lemma par_store_written:
  assumes "tx0 < dimx d" "ty0 < dimy d"
    and "\<And>m. stmt tx0 ty0 m a = v"
    and "\<And>tx ty m. tx < dimx d \<Longrightarrow> ty < dimy d \<Longrightarrow> (tx, ty) \<noteq> (tx0, ty0) \<Longrightarrow> stmt tx ty m a = m a"
  shows "par_store d stmt m a = v"
  unfolding par_store_def
  by (rule fold_written [where ?t0.0 = "(tx0, ty0)"])
     (use assms in \<open>auto simp: threads_set threads_distinct\<close>)











lemma sum_threads:
  fixes h :: "nat \<Rightarrow> real"
  shows "(\<Sum>ty<bdy. \<Sum>tx<bdx. h (tx + ty * bdx)) = (\<Sum>t<bdx * bdy. h t)"
proof -
  have "(\<Sum>tx<bdx. h (tx + ty * bdx)) = sum h {ty * bdx..<ty * bdx + bdx}" for ty
    using sum.shift_bounds_nat_ivl [of h 0 "ty * bdx" bdx]
    by (simp add: lessThan_atLeast0 add.commute)
  then show ?thesis
    using sum.nat_group [of h bdx bdy] by (simp add: mult.commute)
qed





















declare chan_merge.simps [simp del]
declare online_sum.simps [simp del]















lemma stride_rows_step:
  assumes "b < n" "0 < g"
  shows "stride_rows n g b = insert b (stride_rows n g (b + g))"
proof (intro set_eqI iffI)
  fix i assume "i \<in> stride_rows n g b"
  then have i: "b \<le> i" "i < n" "g dvd (i - b)" by (auto simp: stride_rows_def)
  show "i \<in> insert b (stride_rows n g (b + g))"
  proof (cases "i = b")
    case True then show ?thesis by simp
  next
    case False
    then have "0 < i - b" using i by simp
    then have "g \<le> i - b" using i(3) by (simp add: dvd_imp_le)
    then have "b + g \<le> i" using i(1) by arith
    moreover have "g dvd (i - b) - g" using i(3) by (rule dvd_diff_nat) simp
    then have "g dvd (i - (b + g))" by (simp add: diff_diff_left)
    ultimately show ?thesis using i by (simp add: stride_rows_def)
  qed
next
  fix i assume "i \<in> insert b (stride_rows n g (b + g))"
  then show "i \<in> stride_rows n g b"
  proof
    assume "i = b" then show ?thesis using assms by (simp add: stride_rows_def)
  next
    assume "i \<in> stride_rows n g (b + g)"
    then have i: "b + g \<le> i" "i < n" "g dvd (i - (b + g))" by (auto simp: stride_rows_def)
    have "i - b = (i - (b + g)) + g" using i by simp
    then have "g dvd (i - b)" using i(3) by simp
    then show ?thesis using i by (simp add: stride_rows_def)
  qed
qed

lemma stride_rows_empty: "\<not> b < n \<Longrightarrow> stride_rows n g b = {}"
  by (auto simp: stride_rows_def)







lemma strided_for_embed:
  assumes emb: "\<And>i s. body i (emb s) = emb (core i s)"
  shows "strided_for off i n step body (emb s) =
         (fst (strided_for off i n step core s), emb (snd (strided_for off i n step core s)))"
proof (induction "n - (i + off)" arbitrary: i s rule: less_induct)
  case less
  show ?case
  proof (cases "i + off < n \<and> 0 < step")
    case True
    have l: "strided_for off i n step body (emb s) =
             strided_for off (i + step) n step body (body i (emb s))"
      using True by (subst strided_for.simps) simp
    have r: "strided_for off i n step core s = strided_for off (i + step) n step core (core i s)"
      using True by (subst strided_for.simps) simp
    have "strided_for off (i + step) n step body (emb (core i s)) =
         (fst (strided_for off (i + step) n step core (core i s)),
          emb (snd (strided_for off (i + step) n step core (core i s))))"
      using True by (intro less) auto
    then show ?thesis unfolding l r emb .
  next
    case False
    have l: "strided_for off i n step body (emb s) = (i, emb s)"
      using False by (subst strided_for.simps) auto
    have r: "strided_for off i n step core s = (i, s)"
      using False by (subst strided_for.simps) auto
    show ?thesis unfolding l r by simp
  qed
qed

lemma cuApplyLayerNorm_rms_mean:
  "cuApplyLayerNorm g bd b fm buf ov mean iv vals n1 n2 eps gamma beta True =
     (case snd (strided_for 0 b n1 g (rms_row_core bd fm vals n1 n2 eps gamma beta) (ov, iv, buf)) of
        (ov', iv', buf') \<Rightarrow> Inr (ov', mean, iv'))"
proof -
  define emb where "emb = (\<lambda>(ov, iv, buf). (Inr (ov, mean, iv, buf) :: fault + fwd_state))"
  have "cuApplyLayerNorm_row bd fm vals n1 n2 eps gamma beta True i (emb s) =
        emb (rms_row_core bd fm vals n1 n2 eps gamma beta i s)" for i s
    by (cases s) (simp add: emb_def rms_row_core_def Let_def split_def)
  then have "strided_for 0 b n1 g (cuApplyLayerNorm_row bd fm vals n1 n2 eps gamma beta True)
               (emb (ov, iv, buf)) =
         (fst (strided_for 0 b n1 g (rms_row_core bd fm vals n1 n2 eps gamma beta) (ov, iv, buf)),
          emb (snd (strided_for 0 b n1 g (rms_row_core bd fm vals n1 n2 eps gamma beta) (ov, iv, buf))))"
    by (rule strided_for_embed)
  then show ?thesis
    unfolding cuApplyLayerNorm_def by (simp add: emb_def split_def)
qed

lemma normalized_elem_exact:
  "normalized_elem exact (Some gamma) None True c mu i v = gamma i * (v * c)"
  by (simp add: mulV_def exact_def)






lemma dispatch_default:
  assumes "TYPEIN \<notin> {F64, F32, F16, BF16} \<or> TYPEOUT \<notin> {F64, F32, F16, BF16}"
  shows "DISPATCH_DOUBLE_FLOAT_HALF_AND_BFLOAT_INOUT_TYPES tc TYPEIN TYPEOUT stmt s = s"
  using assms by (cases TYPEIN; cases TYPEOUT) auto

lemma fold_fst:
  assumes "\<And>t a b. fst (act t (a, b)) = f t a"
  shows "fst (fold act ts (a, b)) = fold f ts a"
proof (induction ts arbitrary: a b)
  case Nil
  then show ?case by simp
next
  case (Cons t ts)
  obtain a' b' where ab: "act t (a, b) = (a', b')" by (cases "act t (a, b)")
  then have "a' = f t a" using assms [of t a b] by simp
  then show ?case using Cons [of a' b'] ab by simp
qed

lemma fold_snd_id:
  assumes "\<And>t a b. snd (act t (a, b)) = b"
  shows "snd (fold act ts (a, b)) = b"
proof (induction ts arbitrary: a b)
  case Nil
  then show ?case by simp
next
  case (Cons t ts)
  obtain a' b' where ab: "act t (a, b) = (a', b')" by (cases "act t (a, b)")
  then have "b' = b" using assms [of t a b] by simp
  then show ?case using Cons [of a' b'] ab by simp
qed

lemma par_store_fst:
  assumes "\<And>tx ty a b. fst (stmt tx ty (a, b)) = f tx ty a"
  shows "fst (par_store d stmt (a, b)) = par_store d f a"
  unfolding par_store_def
  by (rule fold_fst) (auto simp: assms)

lemma par_store_snd_id:
  assumes "\<And>tx ty a b. snd (stmt tx ty (a, b)) = b"
  shows "snd (par_store d stmt (a, b)) = b"
  unfolding par_store_def
  by (rule fold_snd_id) (auto simp: assms)

lemma sum_loss_body_rms_mean:
  "sum_loss_body fm gamma True k_input k_dout mean = sum_loss_body fm gamma True k_input k_dout mean'"
  by (intro ext) (simp add: sum_loss_body_def Let_def split_def cong: if_cong option.case_cong)

lemma f_grad_input_rms_mean:
  "f_grad_input fm gamma True k_input k_dout mean = f_grad_input fm gamma True k_input k_dout mean'"
  by (intro ext) (simp add: f_grad_input_def Let_def cong: if_cong)

lemma cuComputeGradInput_rms_mean:
  "cuComputeGradInput g bd b fm buf dout input n1 n2 mean invvar eps gamma gi True =
   cuComputeGradInput g bd b fm buf dout input n1 n2 mean' invvar eps gamma gi True"
  unfolding cuComputeGradInput_def cuComputeGradInput_row_def grad_input_sums_def
    sum_loss_body_rms_mean [where mean = mean and mean' = mean']
    f_grad_input_rms_mean [where mean = mean and mean' = mean']
  by (rule refl)

lemma cuLoadWriteStridedInputs_rms_mean:
  "cuLoadWriteStridedInputs bdy fm i1_block ro co i2_off rs wb1 wb2 input dout i1_end n2 mean invvar True =
   cuLoadWriteStridedInputs bdy fm i1_block ro co i2_off rs wb1 wb2 input dout i1_end n2 mean' invvar True"
  by (intro ext) (simp add: cuLoadWriteStridedInputs_def Let_def cong: if_cong)

lemma cuLoadAddStridedInputs_rms_mean:
  "cuLoadAddStridedInputs bdy fm i1_block ro co i2_off rs wb1 wb2 input dout i1_end n2 mean invvar True =
   cuLoadAddStridedInputs bdy fm i1_block ro co i2_off rs wb1 wb2 input dout i1_end n2 mean' invvar True"
  by (intro ext) (simp add: cuLoadAddStridedInputs_def Let_def cong: if_cong)

lemma part_grad_tiles_rms_mean:
  "part_grad_tiles g bd bix biy fm buf dout input n1 n2 mean invvar True =
   part_grad_tiles g bd bix biy fm buf dout input n1 n2 mean' invvar True"
  unfolding part_grad_tiles_def
    cuLoadWriteStridedInputs_rms_mean [where mean = mean and mean' = mean']
    cuLoadAddStridedInputs_rms_mean [where mean = mean and mean' = mean']
  by (rule refl)

lemma cuComputePartGradGammaBeta_rms_slots:
  "cuComputePartGradGammaBeta g bd bix biy fm buf dout input n1 n2 mean invvar eps pgg pgb True =
   (fst (cuComputePartGradGammaBeta g bd bix biy fm buf dout input n1 n2 mean' invvar eps
           pgg pgb' True), pgb)"
proof -
  define f where "f = (\<lambda>tx ty pgg.
           let i2 = bix * dimx bd + tx
           in if ty = 0 \<and> i2 < n2 then
                pgg(biy * n2 + i2 :=
                   part_grad_tiles g bd bix biy fm buf dout input n1 n2 mean invvar True
                     (0 + dimy bd * dimy bd * (dimx bd + 1) + (ty * (dimx bd + 1) + tx))
                 + part_grad_tiles g bd bix biy fm buf dout input n1 n2 mean invvar True
                     (0 + dimy bd * dimy bd * (dimx bd + 1) + ((ty + 1) * (dimx bd + 1) + tx)))
              else pgg)"
  have 1: "fst (cuComputePartGradGammaBeta g bd bix biy fm buf dout input n1 n2 m invvar eps
              pgg q True) = par_store bd f pgg"
    if "part_grad_tiles g bd bix biy fm buf dout input n1 n2 m invvar True =
        part_grad_tiles g bd bix biy fm buf dout input n1 n2 mean invvar True" for m q
    unfolding cuComputePartGradGammaBeta_def Let_def that
    by (rule par_store_fst) (simp add: f_def Let_def)
  have 2: "snd (cuComputePartGradGammaBeta g bd bix biy fm buf dout input n1 n2 mean invvar eps
              pgg pgb True) = pgb"
    unfolding cuComputePartGradGammaBeta_def Let_def
    by (rule par_store_snd_id) simp
  show ?thesis
    using 1 [of mean pgb] 1 [of mean' pgb'] 2 part_grad_tiles_rms_mean [of g bd bix biy fm buf dout
       input n1 n2 mean' invvar mean]
    by (simp add: prod_eq_iff)
qed

lemma grad_gamma_sums_rms_slots:
  "grad_gamma_sums bd bix buf pgg pgb ps n2 True = grad_gamma_sums bd bix buf pgg pgb' ps n2 True"
  unfolding grad_gamma_sums_def by (simp add: Let_def split_def cong: if_cong)

lemma cuComputeGradGammaBeta_rms_slots:
  "cuComputeGradGammaBeta bd bix fm buf pgg pgb ps n1 n2 gg gb True =
   (fst (cuComputeGradGammaBeta bd bix fm buf pgg pgb' ps n1 n2 gg gb' True), gb)"
proof -
  define f where "f = (\<lambda>tx ty gg.
           let i2 = bix * dimx bd + tx
           in if i2 < n2 \<and> ty = 0
              then gg(i2 := castV fm (fst (grad_gamma_sums bd bix buf pgg pgb ps n2 True tx ty)))
              else gg)"
  have 1: "fst (cuComputeGradGammaBeta bd bix fm buf pgg q ps n1 n2 gg q' True) = par_store bd f gg"
    for q q'
    unfolding cuComputeGradGammaBeta_def Let_def grad_gamma_sums_rms_slots [where pgb = q and pgb' = pgb]
    by (rule par_store_fst) (simp add: f_def Let_def split_def)
  have 2: "snd (cuComputeGradGammaBeta bd bix fm buf pgg pgb ps n1 n2 gg gb True) = gb"
    unfolding cuComputeGradGammaBeta_def Let_def
    by (rule par_store_snd_id) (simp add: split_def)
  show ?thesis
    using 1 [of pgb gb] 1 [of pgb' gb'] 2 by (simp add: prod_eq_iff)
qed

lemma normalized_elem_rms_beta:
  "normalized_elem fm gamma beta True = normalized_elem fm gamma beta' True"
  by (intro ext) (cases gamma; simp)

lemma cuApplyRMSNorm_slots:
  "\<exists>out' invvar'.
     cuApplyRMSNorm g bd b fm buf ov iv vals n1 n2 eps gamma = Inr (out', invvar') \<and>
     cuApplyLayerNorm g bd b fm buf ov mean iv vals n1 n2 eps gamma beta True
       = Inr (out', mean, invvar')"
proof -
  have "rms_row_core bd fm vals n1 n2 eps gamma beta = rms_row_core bd fm vals n1 n2 eps gamma None"
    unfolding rms_row_core_def normalized_elem_rms_beta [where beta = beta and beta' = None]
    by (rule refl)
  then show ?thesis
    unfolding cuApplyRMSNorm_def cuApplyLayerNorm_rms_mean by (simp add: split_def)
qed


lemma launches_rms_only:
  "\<forall>l \<in> set (rms_forward_affine_mixed_dtypes_launches tc maxGridY d)
          \<union> set (rms_backward_affine_launches tc maxGridY' buffers d). launch_rms_only l"
  unfolding rms_forward_affine_mixed_dtypes_launches_def rms_backward_affine_launches_def
  by (cases "d_x_type d"; cases "d_w_type d")
     (simp_all add: HostApplyRMSNorm_launches_def HostRMSNormGradient_launches_def)








lemma tree_sum:
  fixes val :: "'s \<Rightarrow> nat \<Rightarrow> real"
  assumes step: "\<And>offset s ty. 2 * offset \<le> N \<Longrightarrow>
      val (body offset s) ty = (if ty < offset then val s ty + val s (ty + offset) else val s ty)"
  shows "2 * 2 ^ j \<le> N \<Longrightarrow> val (halving_for 0 (2 ^ j) body s) 0 = (\<Sum>ty<2 * 2 ^ j. val s ty)"
proof (induction j arbitrary: s)
  case 0
  have "halving_for 0 (2 ^ 0) body s = body 1 s" by (simp add: halving_for.simps)
  then show ?case using step [of 1 s 0] 0 by (simp add: numeral_2_eq_2)
next
  case (Suc j)
  have h: "halving_for 0 (2 ^ Suc j) body s = halving_for 0 (2 ^ j) body (body (2 ^ Suc j) s)"
    by (subst halving_for.simps) simp
  have "val (halving_for 0 (2 ^ Suc j) body s) 0 = (\<Sum>ty<2 * 2 ^ j. val (body (2 ^ Suc j) s) ty)"
    unfolding h using Suc.prems by (intro Suc.IH) simp
  also have "\<dots> = (\<Sum>ty<2 ^ Suc j. val s ty + val s (ty + 2 ^ Suc j))"
    using step [of "2 ^ Suc j" s] Suc.prems by (intro sum.cong) simp_all
  also have "\<dots> = (\<Sum>ty<2 ^ Suc j. val s ty) + (\<Sum>ty<2 ^ Suc j. val s (ty + 2 ^ Suc j))"
    by (rule sum.distrib)
  also have "(\<Sum>ty<2 ^ Suc j. val s (ty + 2 ^ Suc j)) =
             (\<Sum>ty\<in>{2 ^ Suc j..<2 ^ Suc j + 2 ^ Suc j}. val s ty)"
    using sum.shift_bounds_nat_ivl [of "val s" 0 "2 ^ Suc j" "2 ^ Suc j"]
    by (simp add: lessThan_atLeast0)
  also have "(\<Sum>ty<2 ^ Suc j. val s ty) + (\<Sum>ty\<in>{2 ^ Suc j..<2 ^ Suc j + 2 ^ Suc j}. val s ty)
             = (\<Sum>ty<2 * 2 ^ Suc j. val s ty)"
    using sum.atLeastLessThan_concat [of 0 "2 ^ Suc j" "2 ^ Suc j + 2 ^ Suc j" "val s"]
    by (simp add: lessThan_atLeast0 mult_2)
  finally show ?case .
qed

lemma lin_idx_inj:
  assumes "p * n + a = q * n + b" "a < n" "b < (n::nat)"
  shows "p = q \<and> a = b"
proof -
  have "p = (p * n + a) div n" using assms(2) by simp
  also have "\<dots> = (q * n + b) div n" by (simp only: assms(1))
  also have "\<dots> = q" using assms(3) by simp
  finally have "p = q" .
  then show ?thesis using assms(1) by simp
qed
















lemma grad_gamma_interwarp_buf:
  assumes o: "2 * offset \<le> dimy bd" and tx: "tx < dimx bd" and ty: "ty < offset"
    and i2: "bix * dimx bd + tx < n2"
  shows "snd (grad_gamma_interwarp_step bd bix n2 True offset (r, buf)) (ty * dimx bd + tx)
           = fst (r tx (ty + offset))"
proof -
  define S where "S = (\<lambda>tx' ty' (b::array).
                  if bix * dimx bd + tx' < n2 \<and> ty' \<ge> offset \<and> ty' < 2 * offset
                  then b((ty' - offset) * dimx bd + tx' := fst (r tx' ty'))
                  else b)"
  have buf': "snd (grad_gamma_interwarp_step bd bix n2 True offset (r, buf)) = par_store bd S buf"
    unfolding grad_gamma_interwarp_step_def S_def
    by (simp add: Let_def split_def cong: if_cong)
  have t0: "tx < dimx bd" "ty + offset < dimy bd" using assms by auto
  have keep: "S tx' ty' m (ty * dimx bd + tx) = m (ty * dimx bd + tx)"
    if "tx' < dimx bd" "ty' < dimy bd" "(tx', ty') \<noteq> (tx, ty + offset)" for tx' ty' m
  proof (cases "bix * dimx bd + tx' < n2 \<and> offset \<le> ty' \<and> ty' < 2 * offset")
    case True
    have "(ty' - offset) * dimx bd + tx' \<noteq> ty * dimx bd + tx"
    proof
      assume "(ty' - offset) * dimx bd + tx' = ty * dimx bd + tx"
      then have "ty' - offset = ty \<and> tx' = tx" using that(1) tx by (rule lin_idx_inj)
      then show False using that True by auto
    qed
    then show ?thesis unfolding S_def if_P [OF True] by simp
  next
    case False
    show ?thesis unfolding S_def if_not_P [OF False] by (rule refl)
  qed
  have self: "S tx (ty + offset) m (ty * dimx bd + tx) = fst (r tx (ty + offset))" for m
    unfolding S_def using ty i2 by simp
  show ?thesis
    unfolding buf' by (rule par_store_written [OF t0]) (rule self, rule keep)
qed

lemma grad_gamma_interwarp_regs:
  assumes o: "2 * offset \<le> dimy bd" and tx: "tx < dimx bd" and i2: "bix * dimx bd + tx < n2"
  shows "fst (fst (grad_gamma_interwarp_step bd bix n2 True offset (r, buf)) tx ty) =
           (if ty < offset then fst (r tx ty) + fst (r tx (ty + offset)) else fst (r tx ty))"
proof -
  have regs: "fst (fst (grad_gamma_interwarp_step bd bix n2 True offset (r, buf)) tx ty) =
     (if ty < offset
      then fst (r tx ty) + snd (grad_gamma_interwarp_step bd bix n2 True offset (r, buf))
                             (ty * dimx bd + tx)
      else fst (r tx ty))"
    unfolding grad_gamma_interwarp_step_def using i2 by (simp add: Let_def split_def)
  show ?thesis
    unfolding regs using grad_gamma_interwarp_buf [OF o tx _ i2, of ty r buf] by simp
qed

lemma fold_sum_fst:
  fixes g :: "nat \<Rightarrow> real"
  shows "fst (fold (\<lambda>w (s, t). (s + g w, t)) [0..<n] (a, b)) = a + (\<Sum>w<n. g w)"
  by (induction n) (simp_all add: split_def)

lemma grad_gamma_sums_total:
  assumes bd: "dimx bd = 32" "dimy bd = 8" and tx: "tx < 32" and i2: "bix * 32 + tx < n2"
  shows "fst (grad_gamma_sums bd bix buf pgg pgb part_size n2 True tx 0) =
           (\<Sum>p<8 * (part_size div 8). pgg (p * n2 + (bix * 32 + tx)))"
proof -
  define nwr where "nwr = part_size div 8"
  define r0 where "r0 = (\<lambda>tx ty. fold (\<lambda>warp_offset (sum_gamma, sum_beta :: real).
                             (sum_gamma + pgg (ty * nwr * n2 + (bix * 32 + tx) + warp_offset * n2),
                              sum_beta))
                          [0..<nwr] (0, 0))"
  have r0: "fst (r0 t ty) = (\<Sum>w<nwr. pgg ((w + ty * nwr) * n2 + (bix * 32 + t)))" for t ty
    unfolding r0_def fold_sum_fst by (simp add: algebra_simps)
  have unfold: "grad_gamma_sums bd bix buf pgg pgb part_size n2 True =
     fst (halving_for 0 4 (grad_gamma_interwarp_step bd bix n2 True) (r0, buf))"
    unfolding grad_gamma_sums_def r0_def nwr_def bd by (simp add: Let_def)
  have step: "fst (fst (grad_gamma_interwarp_step bd bix n2 True offset s) tx ty) =
        (if ty < offset then fst (fst s tx ty) + fst (fst s tx (ty + offset)) else fst (fst s tx ty))"
    if "2 * offset \<le> dimy bd" for offset s ty
    using grad_gamma_interwarp_regs [OF that, of tx bix n2 "fst s" "snd s" ty] tx i2 bd by simp
  have "fst (fst (halving_for 0 (2 ^ 2) (grad_gamma_interwarp_step bd bix n2 True) (r0, buf)) tx 0) =
        (\<Sum>ty<2 * 2 ^ 2. fst (fst (r0, buf) tx ty))"
    by (rule tree_sum [where val = "\<lambda>s ty. fst (fst s tx ty)" and N = "dimy bd"])
       (use step bd in auto)
  then have "fst (grad_gamma_sums bd bix buf pgg pgb part_size n2 True tx 0) =
        (\<Sum>ty<8. \<Sum>w<nwr. pgg ((w + ty * nwr) * n2 + (bix * 32 + tx)))"
    unfolding unfold by (simp add: r0)
  also have "\<dots> = (\<Sum>p<nwr * 8. pgg (p * n2 + (bix * 32 + tx)))"
    by (rule sum_threads [where h = "\<lambda>p. pgg (p * n2 + (bix * 32 + tx))"])
  finally show ?thesis by (simp add: nwr_def mult.commute)
qed

lemma cuComputeGradGammaBeta_gamma:
  assumes bd: "dimx bd = 32" "dimy bd = 8"
  shows "fst (cuComputeGradGammaBeta bd bix fm buf pgg pgb part_size n1 n2 gg gb True) a =
           (if a div 32 = bix \<and> a < n2
            then castV fm (\<Sum>p<8 * (part_size div 8). pgg (p * n2 + a))
            else gg a)"
proof -
  define f where "f = (\<lambda>tx ty (gg :: array).
           if bix * dimx bd + tx < n2 \<and> ty = 0
           then gg(bix * dimx bd + tx :=
                     castV fm (fst (grad_gamma_sums bd bix buf pgg pgb part_size n2 True tx ty)))
           else gg)"
  have 1: "fst (cuComputeGradGammaBeta bd bix fm buf pgg pgb part_size n1 n2 gg gb True)
           = par_store bd f gg"
    unfolding cuComputeGradGammaBeta_def Let_def
    by (rule par_store_fst) (simp add: f_def Let_def split_def)
  show ?thesis
  proof (cases "a div 32 = bix \<and> a < n2")
    case True
    define tx where "tx = a mod 32"
    have a: "a = bix * 32 + tx" using True div_mult_mod_eq [of a 32] by (simp add: tx_def)
    have tx: "tx < 32" by (simp add: tx_def)
    have t0: "tx < dimx bd" "0 < dimy bd" using bd tx by simp_all
    have i2: "bix * 32 + tx < n2" using True a by simp
    have "par_store bd f gg a =
            castV fm (fst (grad_gamma_sums bd bix buf pgg pgb part_size n2 True tx 0))"
    proof (rule par_store_written [OF t0])
      show "f tx 0 m a = castV fm (fst (grad_gamma_sums bd bix buf pgg pgb part_size n2 True tx 0))"
        for m
        unfolding f_def using i2 a bd by simp
      show "f tx' ty' m a = m a"
        if "tx' < dimx bd" "ty' < dimy bd" "(tx', ty') \<noteq> (tx, 0)" for tx' ty' m
        unfolding f_def using that a bd by auto
    qed
    then show ?thesis
      unfolding 1 grad_gamma_sums_total [OF bd tx i2] using True a by simp
  next
    case False
    have "par_store bd f gg a = gg a"
    proof (rule par_store_untouched)
      show "f tx ty m a = m a" if "tx < dimx bd" "ty < dimy bd" for tx ty m
        unfolding f_def using that False bd by auto
    qed
    then show ?thesis unfolding 1 if_not_P [OF False] .
  qed
qed

lemma HostRMSNormGradient_grad_gamma:
  assumes i2: "i2 < n2"
  shows "fst (snd (HostRMSNormGradient maxGridY fm smem dout invvar input n1 n2 (Some gamma)
                     epsilon grad_input grad_gamma part_size part_grad_gamma)) i2 =
         castV fm (\<Sum>p<8 * (part_size div 8).
                     snd (snd (HostRMSNormGradient maxGridY fm smem dout invvar input n1 n2
                                 (Some gamma) epsilon grad_input grad_gamma part_size
                                 part_grad_gamma)) (p * n2 + i2))"
proof -
  define threads3 where "threads3 = \<lparr>dimx = 32, dimy = 8\<rparr>"
  define blocks3 where "blocks3 = \<lparr>dimx = (n2 + 32 - 1) div 32, dimy = 1\<rparr>"
  define pgg where "pgg = snd (snd (HostRMSNormGradient maxGridY fm smem dout invvar input n1 n2
                                 (Some gamma) epsilon grad_input grad_gamma part_size
                                 part_grad_gamma))"
  define B where "B = (\<lambda>blockIdx_x blockIdx_y gg.
                          fst (cuComputeGradGammaBeta threads3 blockIdx_x fm
                                 (smem 3 blockIdx_x blockIdx_y) pgg pgg part_size n1 n2
                                 gg gg True))"
  have bd: "dimx threads3 = 32" "dimy threads3 = 8" by (simp_all add: threads3_def)
  have host: "fst (snd (HostRMSNormGradient maxGridY fm smem dout invvar input n1 n2 (Some gamma)
                     epsilon grad_input grad_gamma part_size part_grad_gamma))
              = par_store blocks3 B grad_gamma"
    unfolding pgg_def B_def blocks3_def threads3_def HostRMSNormGradient_def
    by (simp add: Let_def split_def)
  have B: "B bx by gg a =
           (if a div 32 = bx \<and> a < n2
            then castV fm (\<Sum>p<8 * (part_size div 8). pgg (p * n2 + a))
            else gg a)" for bx "by" gg a
    unfolding B_def by (rule cuComputeGradGammaBeta_gamma [OF bd])
  have "i2 div 32 < (n2 + 32 - 1) div 32"
    using i2 by (simp add: div_less_iff_less_mult)
  then have t0: "i2 div 32 < dimx blocks3" "0 < dimy blocks3" by (simp_all add: blocks3_def)
  have "par_store blocks3 B grad_gamma i2 =
          castV fm (\<Sum>p<8 * (part_size div 8). pgg (p * n2 + i2))"
  proof (rule par_store_written [OF t0])
    show "B (i2 div 32) 0 m i2 = castV fm (\<Sum>p<8 * (part_size div 8). pgg (p * n2 + i2))" for m
      unfolding B using i2 by simp
    show "B bx by m i2 = m i2"
      if "bx < dimx blocks3" "by < dimy blocks3" "(bx, by) \<noteq> (i2 div 32, 0)" for bx "by" m
      unfolding B using that by (auto simp: blocks3_def)
  qed
  then show ?thesis unfolding host pgg_def .
qed

lemma fold_range_store:
  "fold (\<lambda>k b. b(base + k := f k)) [0..<n] b =
     (\<lambda>a. if base \<le> a \<and> a < base + n then f (a - base) else b a)"
proof (induction n)
  case 0
  then show ?case by (auto simp: fun_eq_iff)
next
  case (Suc n)
  show ?case
    unfolding upt_Suc_append [OF le0] fold_append comp_def Suc
    by (auto simp: fun_eq_iff less_Suc_eq)
qed

lemma fold_range_add:
  fixes b :: array
  shows "fold (\<lambda>k b. b(base + k := b (base + k) + f k)) [0..<n] b =
     (\<lambda>a. if base \<le> a \<and> a < base + n then b a + f (a - base) else b a)"
proof (induction n)
  case 0
  then show ?case by (auto simp: fun_eq_iff)
next
  case (Suc n)
  show ?case
    unfolding upt_Suc_append [OF le0] fold_append comp_def Suc
    by (auto simp: fun_eq_iff less_Suc_eq)
qed

lemma stride_rows_finite: "finite (stride_rows n g b)"
  by (rule finite_subset [of _ "{..<n}"]) (auto simp: stride_rows_def)

lemma stride_rows_notin: "0 < g \<Longrightarrow> b \<notin> stride_rows n g (b + g)"
  by (simp add: stride_rows_def)

lemma stride_rows_sum:
  fixes f :: "nat \<Rightarrow> real"
  assumes "0 < g"
  shows "sum f (stride_rows n g b) =
           (if b < n then f b + sum f (stride_rows n g (b + g)) else 0)"
proof (cases "b < n")
  case True
  show ?thesis
    unfolding stride_rows_step [OF True assms]
    using True by (simp add: stride_rows_finite stride_rows_notin [OF assms])
next
  case False
  then show ?thesis by (simp add: stride_rows_empty)
qed

lemma load_loop:
  fixes m :: array
  assumes step: "0 < step"
    and body: "\<And>ib m. body ib m =
        (\<lambda>a. if base \<le> a \<and> a < base + D
             then m a + (if ib + ro < n then g (ib + ro) (a - base) else 0)
             else m a)"
  shows "snd (strided_for 0 ib0 n step body m) =
     (\<lambda>a. if base \<le> a \<and> a < base + D
          then m a + (\<Sum>i1 \<in> stride_rows n step (ib0 + ro). g i1 (a - base))
          else m a)"
proof (induction "n - ib0" arbitrary: ib0 m rule: less_induct)
  case less
  show ?case
  proof (cases "ib0 < n")
    case False
    then have "stride_rows n step (ib0 + ro) = {}" by (simp add: stride_rows_empty)
    then show ?thesis
      using False by (subst strided_for.simps) (simp add: fun_eq_iff)
  next
    case True
    have lt: "n - (ib0 + step) < n - ib0" using True step by arith
    have unroll: "strided_for 0 ib0 n step body m = strided_for 0 (ib0 + step) n step body (body ib0 m)"
      using True step by (subst strided_for.simps) simp
    have sum_eq: "(\<Sum>i1 \<in> stride_rows n step (ib0 + ro). g i1 c) =
          (if ib0 + ro < n then g (ib0 + ro) c else 0)
          + (\<Sum>i1 \<in> stride_rows n step (ib0 + step + ro). g i1 c)" for c
    proof (cases "ib0 + ro < n")
      case True
      then show ?thesis
        using stride_rows_sum [OF step, of "\<lambda>i1. g i1 c" n "ib0 + ro"]
        by (simp add: add.commute add.left_commute)
    next
      case False
      then have "stride_rows n step (ib0 + ro) = {}" "stride_rows n step (ib0 + step + ro) = {}"
        by (simp_all add: stride_rows_empty)
      then show ?thesis using False by simp
    qed
    show ?thesis
      unfolding unroll less [OF lt] sum_eq
      by (simp add: fun_eq_iff body)
  qed
qed

lemma fold_cell_update:
  fixes b :: array
  assumes d: "distinct ts"
    and inj: "\<And>t t'. t \<in> set ts \<Longrightarrow> t' \<in> set ts \<Longrightarrow> act t \<Longrightarrow> act t' \<Longrightarrow>
                addr t = addr t' \<Longrightarrow> t = t'"
    and dep: "\<And>t t' m v. t \<in> set ts \<Longrightarrow> t' \<in> set ts \<Longrightarrow> act t \<Longrightarrow> act t' \<Longrightarrow> t \<noteq> t' \<Longrightarrow>
                val t (m(addr t' := v)) = val t m"
  shows "t \<in> set ts \<Longrightarrow> act t \<Longrightarrow>
           fold (\<lambda>t m. if act t then m(addr t := val t m) else m) ts b (addr t) = val t b"
  using d inj dep
proof (induction ts arbitrary: b)
  case Nil
  then show ?case by simp
next
  case (Cons u us)
  define F where "F = (\<lambda>t (m :: array). if act t then m(addr t := val t m) else m)"
  have IH: "fold F us b' (addr t) = val t b'" if "t \<in> set us" for b'
    unfolding F_def using Cons.IH [OF that Cons.prems(2)] Cons.prems(3,4,5) by simp
  show ?case
  proof (cases "t = u")
    case True
    have "fold F us (F u b) (addr u) = F u b (addr u)"
    proof (rule fold_untouched)
      fix s m assume s: "s \<in> set us"
      then have "s \<noteq> u" using Cons.prems(3) by auto
      then have "act s \<Longrightarrow> addr s \<noteq> addr u"
        using Cons.prems(4) [of s u] s Cons.prems(2) True by auto
      then show "F s m (addr u) = m (addr u)" by (auto simp: F_def)
    qed
    then show ?thesis using Cons.prems(2) True by (simp add: F_def)
  next
    case False
    then have t: "t \<in> set us" using Cons.prems(1) by simp
    have "val t (F u b) = val t b"
    proof (cases "act u")
      case True
      have "val t (b(addr u := val u b)) = val t b"
        by (rule Cons.prems(5)) (use Cons.prems(1,2) True False in simp_all)
      then show ?thesis using True by (simp add: F_def)
    next
      case False
      then show ?thesis by (simp add: F_def)
    qed
    then show ?thesis using IH [OF t, of "F u b"] by (simp add: F_def)
  qed
qed

lemma par_store_cell_update:
  fixes b :: array
  assumes inj: "\<And>tx ty tx' ty'. tx < dimx d \<Longrightarrow> ty < dimy d \<Longrightarrow> tx' < dimx d \<Longrightarrow> ty' < dimy d \<Longrightarrow>
                  act tx ty \<Longrightarrow> act tx' ty' \<Longrightarrow> addr tx ty = addr tx' ty' \<Longrightarrow> tx = tx' \<and> ty = ty'"
    and dep: "\<And>tx ty tx' ty' m v. tx < dimx d \<Longrightarrow> ty < dimy d \<Longrightarrow> tx' < dimx d \<Longrightarrow> ty' < dimy d \<Longrightarrow>
                  act tx ty \<Longrightarrow> act tx' ty' \<Longrightarrow> (tx, ty) \<noteq> (tx', ty') \<Longrightarrow>
                  val tx ty (m(addr tx' ty' := v)) = val tx ty m"
    and t: "tx < dimx d" "ty < dimy d" "act tx ty"
  shows "par_store d (\<lambda>tx ty m. if act tx ty then m(addr tx ty := val tx ty m) else m) b
           (addr tx ty) = val tx ty b"
proof -
  have "fold (\<lambda>t m. if case_prod act t then m(case_prod addr t := case_prod val t m) else m)
          (threads d) b (case_prod addr (tx, ty)) = case_prod val (tx, ty) b"
  proof (rule fold_cell_update [OF threads_distinct])
    show "(tx, ty) \<in> set (threads d)" using t by (simp add: threads_set)
    show "case_prod act (tx, ty)" using t by simp
    show "u = u'" if "u \<in> set (threads d)" "u' \<in> set (threads d)" "case_prod act u"
      "case_prod act u'" "case_prod addr u = case_prod addr u'" for u u'
      using that inj [of "fst u" "snd u" "fst u'" "snd u'"]
      by (auto simp: threads_set split_def prod_eq_iff)
    show "case_prod val u (m(case_prod addr u' := v)) = case_prod val u m"
      if "u \<in> set (threads d)" "u' \<in> set (threads d)" "case_prod act u"
      "case_prod act u'" "u \<noteq> u'" for u u' m v
      using that dep [of "fst u" "snd u" "fst u'" "snd u'" m v]
      by (auto simp: threads_set split_def prod_eq_iff)
  qed
  then show ?thesis
    unfolding par_store_def by (simp add: split_def cong: if_cong)
qed

lemma segments_sum:
  fixes f :: "nat \<Rightarrow> real"
  shows "(\<Sum>p<P. sum f {p * S..<min ((p + 1) * S) n}) = sum f {..<min (P * S) n}"
proof (induction P)
  case 0
  then show ?case by simp
next
  case (Suc P)
  have "sum f {..<min (P * S) n} + sum f {P * S..<min ((P + 1) * S) n}
        = sum f {..<min ((P + 1) * S) n}"
  proof (cases "P * S \<le> n")
    case True
    then have "min (P * S) n = P * S" by simp
    moreover have "P * S \<le> min ((P + 1) * S) n" using True by simp
    ultimately show ?thesis
      using sum.atLeastLessThan_concat [of 0 "P * S" "min ((P + 1) * S) n" f]
      by (simp add: lessThan_atLeast0)
  next
    case False
    then have "min (P * S) n = n" "min ((P + 1) * S) n = n" "{P * S..<n} = {}" by auto
    then show ?thesis by simp
  qed
  then show ?case using Suc by simp
qed

lemma cuLoadWriteStridedInputs_rms:
  "cuLoadWriteStridedInputs D fm ib ro co i2o rs wb1 wb2 input dout i1_end n2 mean invvar True b =
     (\<lambda>a. if wb2 + (ro * rs + co) \<le> a \<and> a < wb2 + (ro * rs + co) + D
          then (if ib + ro < i1_end
                then gamma_term fm dout input n2 invvar (ib + ro) (i2o + (a - (wb2 + (ro * rs + co))))
                else 0)
          else b a)"
proof (cases "ib + ro < i1_end")
  case True
  have body: "(\<lambda>k (b :: array).
                   let i2 = i2o + k;
                       load_idx = (ib + ro) * n2 + i2;
                       write_idx = ro * rs + co + k
                   in if i2 < n2 then
                        let curr_input = castU fm (input load_idx);
                            curr_dout = castU fm (dout load_idx)
                        in if \<not> True
                           then b(wb1 + write_idx := curr_dout,
                                  wb2 + write_idx :=
                                    curr_dout * (curr_input - mean (ib + ro)) * invvar (ib + ro))
                           else b(wb2 + write_idx := curr_dout * curr_input * invvar (ib + ro))
                      else (if \<not> True then b(wb1 + write_idx := 0) else b)
                             (wb2 + write_idx := 0))
              = (\<lambda>k b. b(wb2 + (ro * rs + co) + k :=
                            gamma_term fm dout input n2 invvar (ib + ro) (i2o + k)))"
    by (intro ext) (simp add: gamma_term_def Let_def add.assoc)
  show ?thesis
    unfolding cuLoadWriteStridedInputs_def Let_def if_P [OF True]
    unfolding body [unfolded Let_def] fold_range_store
    by (rule refl)
next
  case False
  have body: "(\<lambda>k (b :: array).
                   let write_idx = ro * rs + co + k
                   in (if \<not> True then b(wb1 + write_idx := 0) else b)
                        (wb2 + write_idx := 0))
              = (\<lambda>k b. b(wb2 + (ro * rs + co) + k := 0))"
    by (intro ext) (simp add: Let_def add.assoc)
  show ?thesis
    unfolding cuLoadWriteStridedInputs_def Let_def if_not_P [OF False]
    unfolding body [unfolded Let_def] fold_range_store
    by (rule refl)
qed

lemma cuLoadAddStridedInputs_rms:
  "cuLoadAddStridedInputs D fm ib ro co i2o rs wb1 wb2 input dout i1_end n2 mean invvar True b =
     (\<lambda>a. if wb2 + (ro * rs + co) \<le> a \<and> a < wb2 + (ro * rs + co) + D
          then b a + (if ib + ro < i1_end
                      then gamma_term fm dout input n2 invvar (ib + ro)
                             (i2o + (a - (wb2 + (ro * rs + co))))
                      else 0)
          else b a)"
proof (cases "ib + ro < i1_end")
  case True
  have body: "(\<lambda>k (b :: array).
                   let i2 = i2o + k;
                       load_idx = (ib + ro) * n2 + i2;
                       write_idx = ro * rs + co + k
                   in if i2 < n2 then
                        let curr_input = castU fm (input load_idx);
                            curr_dout = castU fm (dout load_idx)
                        in if \<not> True
                           then b(wb1 + write_idx := b (wb1 + write_idx) + curr_dout,
                                  wb2 + write_idx := b (wb2 + write_idx)
                                    + curr_dout * (curr_input - mean (ib + ro)) * invvar (ib + ro))
                           else b(wb2 + write_idx := b (wb2 + write_idx)
                                    + curr_dout * curr_input * invvar (ib + ro))
                      else b)
              = (\<lambda>k b. b(wb2 + (ro * rs + co) + k := b (wb2 + (ro * rs + co) + k)
                            + gamma_term fm dout input n2 invvar (ib + ro) (i2o + k)))"
    by (intro ext) (simp add: gamma_term_def Let_def add.assoc)
  show ?thesis
    unfolding cuLoadAddStridedInputs_def Let_def if_P [OF True]
    unfolding body [unfolded Let_def] fold_range_add
    by (rule refl)
next
  case False
  show ?thesis
    unfolding cuLoadAddStridedInputs_def Let_def if_not_P [OF False]
    by (simp add: fun_eq_iff)
qed

lemma thread_load:
  assumes D: "0 < D"
  shows "snd (strided_for 0 (i1_beg + D * D) i1_end (D * D)
            (\<lambda>i1_block. cuLoadAddStridedInputs D fm i1_block ro co i2o rs wb1 wb2 input dout
                           i1_end n2 mean invvar True)
            (cuLoadWriteStridedInputs D fm i1_beg ro co i2o rs wb1 wb2 input dout i1_end n2
               mean invvar True b))
       = (\<lambda>a. if wb2 + (ro * rs + co) \<le> a \<and> a < wb2 + (ro * rs + co) + D
            then (\<Sum>i1 \<in> stride_rows i1_end (D * D) (i1_beg + ro).
                     gamma_term fm dout input n2 invvar i1 (i2o + (a - (wb2 + (ro * rs + co)))))
            else b a)"
proof -
  have DD: "0 < D * D" using D by simp
  have loop: "snd (strided_for 0 (i1_beg + D * D) i1_end (D * D)
            (\<lambda>i1_block. cuLoadAddStridedInputs D fm i1_block ro co i2o rs wb1 wb2 input dout
                           i1_end n2 mean invvar True) m)
       = (\<lambda>a. if wb2 + (ro * rs + co) \<le> a \<and> a < wb2 + (ro * rs + co) + D
            then m a + (\<Sum>i1 \<in> stride_rows i1_end (D * D) (i1_beg + D * D + ro).
                     gamma_term fm dout input n2 invvar i1 (i2o + (a - (wb2 + (ro * rs + co)))))
            else m a)" for m
    by (rule load_loop [OF DD, where g = "\<lambda>i1 c. gamma_term fm dout input n2 invvar i1 (i2o + c)"])
       (rule cuLoadAddStridedInputs_rms)
  have split: "(\<Sum>i1 \<in> stride_rows i1_end (D * D) (i1_beg + ro). h i1) =
        (if i1_beg + ro < i1_end then h (i1_beg + ro) else 0)
        + (\<Sum>i1 \<in> stride_rows i1_end (D * D) (i1_beg + D * D + ro). h i1)" for h :: "nat \<Rightarrow> real"
  proof (cases "i1_beg + ro < i1_end")
    case True
    have e: "i1_beg + D * D + ro = i1_beg + ro + D * D" by simp
    show ?thesis
      unfolding e using True stride_rows_sum [OF DD, of h i1_end "i1_beg + ro"] by simp
  next
    case False
    then have "stride_rows i1_end (D * D) (i1_beg + ro) = {}"
              "stride_rows i1_end (D * D) (i1_beg + D * D + ro) = {}"
      by (simp_all add: stride_rows_empty)
    then show ?thesis using False by simp
  qed
  show ?thesis
    unfolding loop cuLoadWriteStridedInputs_rms split
    by (simp add: fun_eq_iff)
qed

text \<open>
  C5: cuChanOnlineSum merging (muA, sigma2A, countA) with (muB, sigma2B, countB) gives the
  count countA + countB; when the new count is positive the new mean is the weighted
  average and the new sigma2 is sigma2A + sigma2B + (muB - muA)^2 * (countA/newCount) *
  (countB/newCount) * newCount; when the new count is zero, mu and sigma2 are reset to zero.
\<close>

theorem cuChanOnlineSum_merge_rule:
  "(case cuChanOnlineSum muB sigma2B countB (muA, sigma2A, countA) of
      (mu', sigma2', count') \<Rightarrow>
        count' = countA + countB \<and>
        (0 < count' \<longrightarrow>
           mu' = (countA / count') * muA + (countB / count') * muB \<and>
           sigma2' = sigma2A + sigma2B
                     + (muB - muA)\<^sup>2 * (countA / count') * (countB / count') * count') \<and>
        (count' = 0 \<longrightarrow> mu' = 0 \<and> sigma2' = 0))"
  by (simp add: Let_def power2_eq_square)

theorem cuChanOnlineSum_merge_rule_witness:
  "cuChanOnlineSum 5 2 3 (1, 4, 1) = (4, 18, 4) \<and>
   cuChanOnlineSum 5 2 0 (1, 4, 0) = (0, 0, 0)"
  using cuChanOnlineSum_merge_rule [of 5 2 3 1 4 1]
        cuChanOnlineSum_merge_rule [of 5 2 0 1 4 0]
  by (simp add: Let_def power2_eq_square)





text \<open>
  C7 (mode isolation): in RMS-only mode the forward device function neither reads nor
  writes the mean buffer.  For any two mean pointers (\<open>NULL\<close> or a buffer of any
  content) the two runs end without a fault, with the same \<open>output\<close> and \<open>invvar\<close>
  buffers, and each leaves its mean pointer and buffer as it was.
\<close>

theorem rms_forward_mean_isolation:
  "\<exists>output' invvar'.
     cuApplyLayerNorm gridDim_y bd blockIdx_y fm buf output_vals mean1 invvar vals n1 n2
         epsilon gamma beta True = Inr (output', mean1, invvar') \<and>
     cuApplyLayerNorm gridDim_y bd blockIdx_y fm buf output_vals mean2 invvar vals n1 n2
         epsilon gamma beta True = Inr (output', mean2, invvar')"
  unfolding cuApplyLayerNorm_rms_mean by (simp add: split_def)




text \<open>
  C9: if the input dtype or the weight dtype of the descriptor is outside {F64, F32, F16,
  BF16}, both entry points fall through the dispatch's default branch: whatever the
  dispatched statement is, it is not run; no kernel is launched, the buffers are returned
  as they were, and no error is signalled.
\<close>

theorem dispatch_unsupported_noop:
  assumes "d_x_type d \<notin> {F64, F32, F16, BF16} \<or> d_w_type d \<notin> {F64, F32, F16, BF16}"
  shows "rms_forward_affine_mixed_dtypes tc maxGridY smem buffers d = Inr buffers \<and>
         rms_backward_affine tc maxGridY smem' buffers' d = Inr buffers' \<and>
         rms_forward_affine_mixed_dtypes_launches tc maxGridY d = [] \<and>
         rms_backward_affine_launches tc maxGridY buffers' d = [] \<and>
         DISPATCH_DOUBLE_FLOAT_HALF_AND_BFLOAT_INOUT_TYPES tc (d_x_type d) (d_w_type d) stmt s = s"
  unfolding rms_forward_affine_mixed_dtypes_def rms_backward_affine_def
    rms_forward_affine_mixed_dtypes_launches_def rms_backward_affine_launches_def
  by (simp add: dispatch_default [OF assms])

theorem dispatch_unsupported_noop_witness:
  "rms_forward_affine_mixed_dtypes exact_casts 65535 (\<lambda>b a. 0) [\<lambda>a. 1, \<lambda>a. 1, \<lambda>a. 0, \<lambda>a. 0]
      \<lparr>d_n1 = 2, d_n2 = 4, d_eps = 1 / 100000, d_x_type = OtherType 4, d_w_type = F32,
        d_part_grad_size = 16\<rparr> = Inr [\<lambda>a. 1, \<lambda>a. 1, \<lambda>a. 0, \<lambda>a. 0] \<and>
   rms_backward_affine exact_casts 65535 (\<lambda>k bx by a. 0)
      [\<lambda>a. 1, \<lambda>a. 1, \<lambda>a. 1, \<lambda>a. 1, \<lambda>a. 0, \<lambda>a. 0, \<lambda>a. 0]
      \<lparr>d_n1 = 2, d_n2 = 4, d_eps = 1 / 100000, d_x_type = OtherType 4, d_w_type = F32,
        d_part_grad_size = 16\<rparr> = Inr [\<lambda>a. 1, \<lambda>a. 1, \<lambda>a. 1, \<lambda>a. 1, \<lambda>a. 0, \<lambda>a. 0, \<lambda>a. 0] \<and>
   rms_forward_affine_mixed_dtypes_launches exact_casts 65535
      \<lparr>d_n1 = 2, d_n2 = 4, d_eps = 1 / 100000, d_x_type = OtherType 4, d_w_type = F32,
        d_part_grad_size = 16\<rparr> = []"
  using dispatch_unsupported_noop [where d = "\<lparr>d_n1 = 2, d_n2 = 4, d_eps = 1 / 100000,
          d_x_type = OtherType 4, d_w_type = F32, d_part_grad_size = 16\<rparr>"
        and tc = exact_casts and maxGridY = 65535 and smem = "\<lambda>b a. 0"
        and buffers = "[\<lambda>a. 1, \<lambda>a. 1, \<lambda>a. 0, \<lambda>a. 0]"
        and smem' = "\<lambda>k bx by a. 0"
        and buffers' = "[\<lambda>a. 1, \<lambda>a. 1, \<lambda>a. 1, \<lambda>a. 1, \<lambda>a. 0, \<lambda>a. 0, \<lambda>a. 0]"]
  by simp

text \<open>
  C10: every kernel launch of the two entry points runs with \<open>rms_only = true\<close>, and with
  \<open>rms_only = true\<close> no kernel touches its full-mode arguments: the kernel cuApplyRMSNorm,
  which passes \<open>NULL\<close> for \<open>mean\<close> and \<open>beta\<close>, computes what \<open>cuApplyLayerNorm_\<close> computes
  with any \<open>mean\<close> and \<open>beta\<close>, which leaves \<open>mean\<close> as it was; the results of
  cuComputePartGradGammaBeta, cuComputeGradGammaBeta and cuComputeGradInput do not depend
  on the arguments in the slots \<open>mean\<close>, \<open>part_grad_beta\<close> and \<open>grad_beta\<close>, and the
  buffers behind \<open>part_grad_beta\<close> and \<open>grad_beta\<close> are returned as they were.  So the
  aliases the host passes there (\<open>invvar\<close>, \<open>part_grad_gamma\<close>, \<open>grad_gamma\<close>) are never
  accessed through those roles.
\<close>

theorem rms_only_everywhere:
  "(\<forall>l \<in> set (rms_forward_affine_mixed_dtypes_launches tc maxGridY d)
          \<union> set (rms_backward_affine_launches tc maxGridY' buffers d). launch_rms_only l) \<and>
   (\<exists>out' invvar'.
      cuApplyRMSNorm gridDim_y bd blockIdx_y fm buf output_vals invvar vals n1 n2 epsilon gamma
        = Inr (out', invvar') \<and>
      cuApplyLayerNorm gridDim_y bd blockIdx_y fm buf output_vals mean invvar vals n1 n2 epsilon
        gamma beta True = Inr (out', mean, invvar')) \<and>
   cuComputePartGradGammaBeta gridDim_y bd blockIdx_x blockIdx_y fm buf dout input n1 n2
       mean_slot invvar epsilon part_grad_gamma part_grad_beta True
     = (fst (cuComputePartGradGammaBeta gridDim_y bd blockIdx_x blockIdx_y fm buf dout input n1 n2
               mean_slot' invvar epsilon part_grad_gamma part_grad_beta' True), part_grad_beta) \<and>
   cuComputeGradGammaBeta bd blockIdx_x fm buf part_grad_gamma part_grad_beta part_size n1 n2
       grad_gamma grad_beta True
     = (fst (cuComputeGradGammaBeta bd blockIdx_x fm buf part_grad_gamma part_grad_beta'
               part_size n1 n2 grad_gamma grad_beta' True), grad_beta) \<and>
   cuComputeGradInput gridDim_y bd blockIdx_y fm buf dout input n1 n2 mean_slot invvar epsilon
       gamma grad_input True
     = cuComputeGradInput gridDim_y bd blockIdx_y fm buf dout input n1 n2 mean_slot' invvar
         epsilon gamma grad_input True"
  using launches_rms_only [of tc maxGridY d maxGridY' buffers]
        cuApplyRMSNorm_slots [of gridDim_y bd blockIdx_y fm buf output_vals invvar vals n1 n2
           epsilon gamma mean beta]
        cuComputePartGradGammaBeta_rms_slots [of gridDim_y bd blockIdx_x blockIdx_y fm buf dout
           input n1 n2 mean_slot invvar epsilon part_grad_gamma part_grad_beta mean_slot'
           part_grad_beta']
        cuComputeGradGammaBeta_rms_slots [of bd blockIdx_x fm buf part_grad_gamma part_grad_beta
           part_size n1 n2 grad_gamma grad_beta part_grad_beta' grad_beta']
        cuComputeGradInput_rms_mean [of gridDim_y bd blockIdx_y fm buf dout input n1 n2 mean_slot
           invvar epsilon gamma grad_input mean_slot']
  by blast

theorem rms_only_everywhere_witness:
  "map launch_rms_only (rms_forward_affine_mixed_dtypes_launches exact_casts 65535
      \<lparr>d_n1 = 2, d_n2 = 4, d_eps = 1 / 100000, d_x_type = F16, d_w_type = F32,
        d_part_grad_size = 16\<rparr>) = [True] \<and>
   map launch_rms_only (rms_backward_affine_launches exact_casts 65535
      [\<lambda>a. 1, \<lambda>a. 1, \<lambda>a. 1, \<lambda>a. 1, \<lambda>a. 0, \<lambda>a. 0, \<lambda>a. 0]
      \<lparr>d_n1 = 2, d_n2 = 4, d_eps = 1 / 100000, d_x_type = F16, d_w_type = F32,
        d_part_grad_size = 16\<rparr>) = [True, True, True]"
  using rms_only_everywhere [where tc = exact_casts and maxGridY = 65535 and maxGridY' = 65535
          and d = "\<lparr>d_n1 = 2, d_n2 = 4, d_eps = 1 / 100000, d_x_type = F16, d_w_type = F32,
                    d_part_grad_size = 16\<rparr>"
          and buffers = "[\<lambda>a. 1, \<lambda>a. 1, \<lambda>a. 1, \<lambda>a. 1, \<lambda>a. 0, \<lambda>a. 0, \<lambda>a. 0]"]
  by (simp add: rms_forward_affine_mixed_dtypes_launches_def rms_backward_affine_launches_def
        HostApplyRMSNorm_launches_def HostRMSNormGradient_launches_def)






end
